theory Spec2Isabelle
  imports Complex_Main
begin

section \<open>Exceptions\<close>

text \<open>
  The exceptions the field engine of \<^verbatim>\<open>SimPEG/EM/FDEM/FieldsFDEM.py\<close> can raise, as values.
  \<open>NotImplementedError\<close> carries its message; \<open>IndexError\<close> is numpy's answer to a column
  index outside an array, \<open>ValueError\<close> its (and scipy's) answer to operands whose shapes do
  not fit, \<open>ZeroDivisionError\<close> Python's answer to \<^verbatim>\<open>1./(1j*0.0)\<close>.
\<close>

datatype error = NotImplementedError string | IndexError | ValueError | ZeroDivisionError

definition ebind :: "error + 'a \<Rightarrow> ('a \<Rightarrow> error + 'b) \<Rightarrow> error + 'b" where
  "ebind r f = (case r of Inl e \<Rightarrow> Inl e | Inr a \<Rightarrow> f a)"

section \<open>Vectors, sparse operators, dense arrays\<close>

text \<open>
  Frequency-domain fields are complex. The arithmetic of the model is that of the field of
  complex numbers: rounding is not modelled, so every equation below is one of exact
  linear algebra.

  A one-dimensional array is a list. A sparse operator (\<^verbatim>\<open>scipy.sparse\<close> matrix) is a record
  of its shape and its rows, since the code reads \<^verbatim>\<open>shape[0]\<close> and \<^verbatim>\<open>shape[1]\<close>. A dense
  two-dimensional array of shape \<open>(n, k)\<close> is the list of its \<open>k\<close> columns, each of length
  \<open>n\<close>, since the code addresses it by column (\<^verbatim>\<open>b[:,i]\<close>); the row count of an array
  without columns is not represented.
\<close>

type_synonym vec = "complex list"

type_synonym ndarray = "vec list"

record mat =
  nrows :: nat
  ncols :: nat
  rows :: "vec list"

definition wf_mat :: "mat \<Rightarrow> bool" where
  "wf_mat M = (length (rows M) = nrows M \<and> list_all (\<lambda>r. length r = ncols M) (rows M))"

definition has_shape :: "nat \<Rightarrow> nat \<Rightarrow> ndarray \<Rightarrow> bool" where
  "has_shape n k A = (length A = k \<and> list_all (\<lambda>c. length c = n) A)"

definition dot :: "vec \<Rightarrow> vec \<Rightarrow> complex" where
  "dot x y = sum_list (map2 (*) x y)"

definition mv :: "mat \<Rightarrow> vec \<Rightarrow> vec" where
  "mv M x = map (\<lambda>r. dot r x) (rows M)"

text \<open>\<^verbatim>\<open>M * x\<close> for a sparse \<open>M\<close> and a one-dimensional \<open>x\<close>: scipy raises ValueError
  (dimension mismatch) unless \<open>x\<close> has as many entries as \<open>M\<close> has columns.\<close>

definition matvec :: "mat \<Rightarrow> vec \<Rightarrow> error + vec" where
  "matvec M x = (if length x = ncols M then Inr (mv M x) else Inl ValueError)"

text \<open>\<^verbatim>\<open>M.T\<close>: the plain transpose (numpy and scipy do not conjugate).\<close>

definition transpose_mat :: "mat \<Rightarrow> mat" where
  "transpose_mat M =
     \<lparr>nrows = ncols M, ncols = nrows M,
      rows = map (\<lambda>j. map (\<lambda>r. r ! j) (rows M)) [0..<ncols M]\<rparr>"

text \<open>\<^verbatim>\<open>c * M\<close> and \<^verbatim>\<open>-M\<close> for a scalar \<open>c\<close> and a sparse \<open>M\<close>.\<close>

definition scale_mat :: "complex \<Rightarrow> mat \<Rightarrow> mat" where
  "scale_mat c M = M\<lparr>rows := map (map (\<lambda>a. c * a)) (rows M)\<rparr>"

definition neg_mat :: "mat \<Rightarrow> mat" where
  "neg_mat M = M\<lparr>rows := map (map uminus) (rows M)\<rparr>"

definition scale_vec :: "complex \<Rightarrow> vec \<Rightarrow> vec" where
  "scale_vec c x = map (\<lambda>a. c * a) x"

text \<open>\<^verbatim>\<open>M * X\<close> for a sparse \<open>M\<close> and a dense two-dimensional \<open>X\<close>: the matrix product, column
  by column; ValueError as soon as a column does not fit.\<close>

fun matmat :: "mat \<Rightarrow> ndarray \<Rightarrow> error + ndarray" where
  "matmat M [] = Inr []"
| "matmat M (c # cs) =
     ebind (matvec M c) (\<lambda>c'. ebind (matmat M cs) (\<lambda>cs'. Inr (c' # cs')))"

section \<open>Symbolic zero, sources, the problem\<close>

text \<open>
  Modelled from the spec: \<^verbatim>\<open>SimPEG.Utils.Zero\<close> and \<^verbatim>\<open>SimPEG.Utils.Identity\<close> are not under
  src/. The spec calls \<open>Zero\<close> the algebraic zero element, the additive identity, as
  opposed to an array of numerically small numbers: a value is either that symbol or an
  array. Adding \<open>Zero\<close> returns the other operand, every product with \<open>Zero\<close> and its negation
  are \<open>Zero\<close>; \<^verbatim>\<open>Identity()*v\<close> is \<open>v\<close>.
\<close>

datatype val = Zero | Vec vec

text \<open>
  Modelled from the spec: the source classes are not under src/. By the spec's source
  contract a source has a frequency, four primary-field evaluators and a source-term
  evaluator returning the pair \<open>(S_m, S_e)\<close>, all evaluated at the one problem the fields
  object is bound to, and the derivative evaluator \<^verbatim>\<open>evalDeriv(prob, v, adjoint)\<close> returning
  the pair \<open>(dS_m, dS_e)\<close>; called without \<open>v\<close> it returns the two maps \<open>v \<mapsto> dS_m\<close> and
  \<open>v \<mapsto> dS_e\<close>. The evaluators are trusted collaborators: they return values.
\<close>

record src =
  freq :: real
  ePrimary :: val
  bPrimary :: val
  hPrimary :: val
  jPrimary :: val
  src_eval :: "val \<times> val"
  evalDeriv :: "vec \<Rightarrow> bool \<Rightarrow> val \<times> val"

text \<open>
  The operators the four \<^verbatim>\<open>startup\<close> methods capture from \<^verbatim>\<open>self.survey.prob\<close> and its mesh.
  They are parameters of the model (the problem and mesh classes are not under src/).
\<close>

record problem =
  edgeCurl :: mat
  MeSigmaI :: mat
  MfMui :: mat
  MeSigmaIDeriv :: "vec \<Rightarrow> mat"
  Me :: mat
  MeMuI :: mat
  MfRho :: mat
  MfRhoDeriv :: "vec \<Rightarrow> mat"

text \<open>
  The four concrete classes. A fields object is its class, the operators of its problem
  and the stored solution, read per source (\<^verbatim>\<open>self[[src],'bSolution']\<close>) as the column of
  that source.
\<close>

datatype variant = Fields_e | Fields_b | Fields_j | Fields_h

record fields =
  cls :: variant
  prob :: problem
  stored :: "src \<Rightarrow> vec"

text \<open>\<^verbatim>\<open>self.knownFields.keys()[0]\<close>: each class has one known field.\<close>

fun knownFields_key :: "variant \<Rightarrow> string" where
  "knownFields_key Fields_e = ''eSolution''"
| "knownFields_key Fields_b = ''bSolution''"
| "knownFields_key Fields_j = ''jSolution''"
| "knownFields_key Fields_h = ''hSolution''"

section \<open>Arithmetic of numpy arrays and of \<open>Zero\<close>\<close>

text \<open>
  Modelled from the spec: \<^verbatim>\<open>SimPEG.EM.Utils.omega\<close> is not under src/; the spec's scenario
  gives \<open>\<omega> = 2\<pi>\<cdot>10\<close> rad/s for the angular frequency of a source.
\<close>

definition omega :: "real \<Rightarrow> real" where
  "omega f = 2 * pi * f"

text \<open>\<^verbatim>\<open>1./(1j*omega(src.freq))\<close>: Python's complex division raises on a zero divisor.\<close>

definition inv_iomega :: "real \<Rightarrow> error + complex" where
  "inv_iomega f =
     (if \<i> * complex_of_real (omega f) = 0 then Inl ZeroDivisionError
      else Inr (1 / (\<i> * complex_of_real (omega f))))"

text \<open>
  \<^verbatim>\<open>x + y\<close> and \<^verbatim>\<open>x - y\<close> on one-dimensional arrays: elementwise; numpy broadcasts an
  operand with one entry and raises ValueError on any other difference of lengths.
\<close>

definition vadd :: "vec \<Rightarrow> vec \<Rightarrow> error + vec" where
  "vadd x y =
     (if length x = length y then Inr (map2 (+) x y)
      else if length y = 1 then Inr (map (\<lambda>a. a + y ! 0) x)
      else if length x = 1 then Inr (map (\<lambda>b. x ! 0 + b) y)
      else Inl ValueError)"

definition vsub :: "vec \<Rightarrow> vec \<Rightarrow> error + vec" where
  "vsub x y =
     (if length x = length y then Inr (map2 (-) x y)
      else if length y = 1 then Inr (map (\<lambda>a. a - y ! 0) x)
      else if length x = 1 then Inr (map (\<lambda>b. x ! 0 - b) y)
      else Inl ValueError)"

text \<open>An array plus or minus a value that may be \<open>Zero\<close>; a scalar times, the negation of,
  and a sparse operator times such a value.\<close>

fun np_add_val :: "vec \<Rightarrow> val \<Rightarrow> error + vec" where
  "np_add_val x Zero = Inr x"
| "np_add_val x (Vec y) = vadd x y"

fun np_sub_val :: "vec \<Rightarrow> val \<Rightarrow> error + vec" where
  "np_sub_val x Zero = Inr x"
| "np_sub_val x (Vec y) = vsub x y"

fun scale_val :: "complex \<Rightarrow> val \<Rightarrow> val" where
  "scale_val c Zero = Zero"
| "scale_val c (Vec y) = Vec (scale_vec c y)"

fun neg_val :: "val \<Rightarrow> val" where
  "neg_val Zero = Zero"
| "neg_val (Vec y) = Vec (map uminus y)"

fun matval :: "mat \<Rightarrow> val \<Rightarrow> error + val" where
  "matval M Zero = Inr Zero"
| "matval M (Vec y) = ebind (matvec M y) (\<lambda>z. Inr (Vec z))"

text \<open>The sum of two values, as in \<^verbatim>\<open>self._eDeriv_u(...) + self._eDeriv_m(...)\<close>.\<close>

fun val_add :: "val \<Rightarrow> val \<Rightarrow> error + val" where
  "val_add Zero v = Inr v"
| "val_add (Vec x) Zero = Inr (Vec x)"
| "val_add (Vec x) (Vec y) = ebind (vadd x y) (\<lambda>z. Inr (Vec z))"

text \<open>\<^verbatim>\<open>b[:,i] *= c\<close> multiplies the entries of the column in place.\<close>

definition imul_vec :: "vec \<Rightarrow> complex \<Rightarrow> vec" where
  "imul_vec x c = map (\<lambda>a. a * c) x"

text \<open>\<^verbatim>\<open>np.zeros_like(A)\<close> and \<^verbatim>\<open>np.zeros([n, k], dtype=complex)\<close>. Every array of the model
  is complex, as \<^verbatim>\<open>Fields.dtype\<close> says of the stored solution.\<close>

definition zeros_like :: "ndarray \<Rightarrow> ndarray" where
  "zeros_like A = map (\<lambda>c. replicate (length c) 0) A"

definition zeros :: "nat \<Rightarrow> nat \<Rightarrow> ndarray" where
  "zeros n k = replicate k (replicate n 0)"

text \<open>
  \<^verbatim>\<open>A[:,i] = v\<close> stores \<open>v\<close> in a column \<open>c\<close> of \<open>A\<close>: \<open>v\<close> must have the length of the column or
  one entry (which numpy repeats), anything else is a ValueError.
\<close>

definition setitem_col :: "vec \<Rightarrow> vec \<Rightarrow> error + vec" where
  "setitem_col c v =
     (if length v = length c then Inr v
      else if length v = 1 then Inr (replicate (length c) (v ! 0))
      else Inl ValueError)"

text \<open>
  The loop all accessors share,
  \<^verbatim>\<open>for i, src in enumerate(srcList): A[:,i] = step(src, A[:,i])\<close>,
  where \<open>step\<close> is the right-hand side of the accessor at hand. Reading column \<open>i\<close> of an
  array with no such column raises IndexError; the error of a step ends the loop.
\<close>

fun for_cols :: "(src \<Rightarrow> vec \<Rightarrow> error + vec) \<Rightarrow> nat \<Rightarrow> src list \<Rightarrow> ndarray \<Rightarrow> error + ndarray" where
  "for_cols step i [] A = Inr A"
| "for_cols step i (s # ss) A =
     (if i < length A then
        ebind (step s (A ! i)) (\<lambda>v.
        ebind (setitem_col (A ! i) v) (\<lambda>c.
        for_cols step (Suc i) ss (A[i := c])))
      else Inl IndexError)"

text \<open>What one round of the loop stores in a column \<open>c\<close>: the step's value, fitted to \<open>c\<close>.\<close>

definition new_col :: "(vec \<Rightarrow> error + vec) \<Rightarrow> vec \<Rightarrow> error + vec" where
  "new_col f c = ebind (f c) (setitem_col c)"

text \<open>
  For the statements below: a value fits a space of dimension \<open>n\<close> when it is \<open>Zero\<close> or an
  array of \<open>n\<close> entries, and \<open>as_vec n\<close> is the array it stands for there.
\<close>

fun fits :: "nat \<Rightarrow> val \<Rightarrow> bool" where
  "fits n Zero = True"
| "fits n (Vec y) = (length y = n)"

fun as_vec :: "nat \<Rightarrow> val \<Rightarrow> vec" where
  "as_vec n Zero = replicate n 0"
| "as_vec n (Vec y) = y"

text \<open>
  The sum of two dense arrays, as in \<^verbatim>\<open>self._ePrimary(...) + self._eSecondary(...)\<close>: column
  by column. The two summands of a total field have one column per column of the
  solution; arrays with different numbers of columns are a ValueError.
\<close>

fun cols_add :: "ndarray \<Rightarrow> ndarray \<Rightarrow> error + ndarray" where
  "cols_add [] [] = Inr []"
| "cols_add (x # xs) (y # ys) =
     ebind (vadd x y) (\<lambda>z. ebind (cols_add xs ys) (\<lambda>zs. Inr (z # zs)))"
| "cols_add _ _ = Inl ValueError"

section \<open>\<^verbatim>\<open>Fields_e\<close>\<close>

definition Fields_e_ePrimary :: "fields \<Rightarrow> ndarray \<Rightarrow> src list \<Rightarrow> error + ndarray" where
  "Fields_e_ePrimary self eSolution srcList =
     for_cols (\<lambda>s c. np_add_val c (ePrimary s)) 0 srcList (zeros_like eSolution)"

definition Fields_e_eSecondary :: "fields \<Rightarrow> ndarray \<Rightarrow> src list \<Rightarrow> error + ndarray" where
  "Fields_e_eSecondary self eSolution srcList = Inr eSolution"

definition Fields_e_eDeriv_u :: "fields \<Rightarrow> src \<Rightarrow> vec \<Rightarrow> bool \<Rightarrow> error + val" where
  "Fields_e_eDeriv_u self s v adjoint = Inr (Vec v)"

definition Fields_e_eDeriv_m :: "fields \<Rightarrow> src \<Rightarrow> vec \<Rightarrow> bool \<Rightarrow> error + val" where
  "Fields_e_eDeriv_m self s v adjoint = Inr Zero"

definition Fields_e_bPrimary :: "fields \<Rightarrow> ndarray \<Rightarrow> src list \<Rightarrow> error + ndarray" where
  "Fields_e_bPrimary self eSolution srcList =
     for_cols (\<lambda>s c. np_add_val c (bPrimary s)) 0 srcList
       (zeros (nrows (edgeCurl (prob self))) (length eSolution))"

definition Fields_e_bSecondary :: "fields \<Rightarrow> ndarray \<Rightarrow> src list \<Rightarrow> error + ndarray" where
  "Fields_e_bSecondary self eSolution srcList =
     ebind (matmat (edgeCurl (prob self)) eSolution) (\<lambda>b.
     for_cols (\<lambda>s c.
         ebind (inv_iomega (freq s)) (\<lambda>k.
         np_add_val (imul_vec c (- k)) (scale_val k (fst (src_eval s)))))
       0 srcList b)"

definition Fields_e_bSecondaryDeriv_u :: "fields \<Rightarrow> src \<Rightarrow> vec \<Rightarrow> bool \<Rightarrow> error + val" where
  "Fields_e_bSecondaryDeriv_u self s du_dm adjoint =
     (if adjoint then
        ebind (inv_iomega (freq s)) (\<lambda>k.
        ebind (matvec (transpose_mat (edgeCurl (prob self))) du_dm) (\<lambda>x.
        Inr (Vec (scale_vec (- k) x))))
      else
        ebind (inv_iomega (freq s)) (\<lambda>k.
        ebind (matvec (edgeCurl (prob self)) du_dm) (\<lambda>x.
        Inr (Vec (scale_vec (- k) x)))))"

definition Fields_e_bSecondaryDeriv_m :: "fields \<Rightarrow> src \<Rightarrow> vec \<Rightarrow> bool \<Rightarrow> error + val" where
  "Fields_e_bSecondaryDeriv_m self s v adjoint =
     ebind (inv_iomega (freq s)) (\<lambda>k. Inr (scale_val k (fst (evalDeriv s v adjoint))))"

definition Fields_e_bDeriv_u :: "fields \<Rightarrow> src \<Rightarrow> vec \<Rightarrow> bool \<Rightarrow> error + val" where
  "Fields_e_bDeriv_u self s du_dm adjoint = Fields_e_bSecondaryDeriv_u self s du_dm adjoint"

definition Fields_e_bDeriv_m :: "fields \<Rightarrow> src \<Rightarrow> vec \<Rightarrow> bool \<Rightarrow> error + val" where
  "Fields_e_bDeriv_m self s v adjoint = Fields_e_bSecondaryDeriv_m self s v adjoint"

section \<open>\<^verbatim>\<open>Fields_b\<close>\<close>

definition Fields_b_bPrimary :: "fields \<Rightarrow> ndarray \<Rightarrow> src list \<Rightarrow> error + ndarray" where
  "Fields_b_bPrimary self bSolution srcList =
     for_cols (\<lambda>s c. np_add_val c (bPrimary s)) 0 srcList (zeros_like bSolution)"

definition Fields_b_bSecondary :: "fields \<Rightarrow> ndarray \<Rightarrow> src list \<Rightarrow> error + ndarray" where
  "Fields_b_bSecondary self bSolution srcList = Inr bSolution"

definition Fields_b_bDeriv_u :: "fields \<Rightarrow> src \<Rightarrow> vec \<Rightarrow> bool \<Rightarrow> error + val" where
  "Fields_b_bDeriv_u self s du_dm adjoint = Inr (Vec du_dm)"

definition Fields_b_bDeriv_m :: "fields \<Rightarrow> src \<Rightarrow> vec \<Rightarrow> bool \<Rightarrow> error + val" where
  "Fields_b_bDeriv_m self s v adjoint = Inr Zero"

definition Fields_b_ePrimary :: "fields \<Rightarrow> ndarray \<Rightarrow> src list \<Rightarrow> error + ndarray" where
  "Fields_b_ePrimary self bSolution srcList =
     for_cols (\<lambda>s c. np_add_val c (ePrimary s)) 0 srcList
       (zeros (ncols (edgeCurl (prob self))) (length bSolution))"

definition Fields_b_eSecondary :: "fields \<Rightarrow> ndarray \<Rightarrow> src list \<Rightarrow> error + ndarray" where
  "Fields_b_eSecondary self bSolution srcList =
     ebind (matmat (MfMui (prob self)) bSolution) (\<lambda>x.
     ebind (matmat (transpose_mat (edgeCurl (prob self))) x) (\<lambda>y.
     ebind (matmat (MeSigmaI (prob self)) y) (\<lambda>e.
     for_cols (\<lambda>s c.
         ebind (matval (neg_mat (MeSigmaI (prob self))) (snd (src_eval s))) (\<lambda>z.
         np_add_val c z))
       0 srcList e)))"

definition Fields_b_eSecondaryDeriv_u :: "fields \<Rightarrow> src \<Rightarrow> vec \<Rightarrow> bool \<Rightarrow> error + val" where
  "Fields_b_eSecondaryDeriv_u self s du_dm adjoint =
     (if \<not> adjoint then
        ebind (matvec (MfMui (prob self)) du_dm) (\<lambda>a.
        ebind (matvec (transpose_mat (edgeCurl (prob self))) a) (\<lambda>b.
        ebind (matvec (MeSigmaI (prob self)) b) (\<lambda>c. Inr (Vec c))))
      else
        ebind (matvec (transpose_mat (MeSigmaI (prob self))) du_dm) (\<lambda>a.
        ebind (matvec (edgeCurl (prob self)) a) (\<lambda>b.
        ebind (matvec (transpose_mat (MfMui (prob self))) b) (\<lambda>c. Inr (Vec c)))))"

definition Fields_b_eSecondaryDeriv_m :: "fields \<Rightarrow> src \<Rightarrow> vec \<Rightarrow> bool \<Rightarrow> error + val" where
  "Fields_b_eSecondaryDeriv_m self s v adjoint =
     (let bSolution = stored self s;
          S_e = snd (src_eval s);
          Me' = (if adjoint then transpose_mat (Me (prob self)) else Me (prob self))
      in ebind (matvec (MfMui (prob self)) bSolution) (\<lambda>x.
         ebind (matvec (transpose_mat (edgeCurl (prob self))) x) (\<lambda>w0.
         ebind (matval Me' S_e) (\<lambda>y.
         ebind (np_sub_val w0 y) (\<lambda>w.
         ebind (matvec (if \<not> adjoint then MeSigmaIDeriv (prob self) w
                        else transpose_mat (MeSigmaIDeriv (prob self) w)) v) (\<lambda>de_dm.
         ebind (matval (MeSigmaI (prob self)) (snd (evalDeriv s v adjoint))) (\<lambda>z.
         ebind (np_sub_val de_dm z) (\<lambda>r. Inr (Vec r)))))))))"

definition Fields_b_eDeriv_u :: "fields \<Rightarrow> src \<Rightarrow> vec \<Rightarrow> bool \<Rightarrow> error + val" where
  "Fields_b_eDeriv_u self s du_dm adjoint = Fields_b_eSecondaryDeriv_u self s du_dm adjoint"

definition Fields_b_eDeriv_m :: "fields \<Rightarrow> src \<Rightarrow> vec \<Rightarrow> bool \<Rightarrow> error + val" where
  "Fields_b_eDeriv_m self s v adjoint = Fields_b_eSecondaryDeriv_m self s v adjoint"

section \<open>\<^verbatim>\<open>Fields_j\<close>\<close>

definition Fields_j_jPrimary :: "fields \<Rightarrow> ndarray \<Rightarrow> src list \<Rightarrow> error + ndarray" where
  "Fields_j_jPrimary self jSolution srcList =
     for_cols (\<lambda>s c. np_add_val c (jPrimary s)) 0 srcList (zeros_like jSolution)"

definition Fields_j_jSecondary :: "fields \<Rightarrow> ndarray \<Rightarrow> src list \<Rightarrow> error + ndarray" where
  "Fields_j_jSecondary self jSolution srcList = Inr jSolution"

text \<open>\<^verbatim>\<open>Fields_j\<close> overrides \<^verbatim>\<open>_j\<close> of the base class, without the base class's check.\<close>

definition Fields_j_j :: "fields \<Rightarrow> ndarray \<Rightarrow> src list \<Rightarrow> error + ndarray" where
  "Fields_j_j self jSolution srcList =
     ebind (Fields_j_jPrimary self jSolution srcList) (\<lambda>p.
     ebind (Fields_j_jSecondary self jSolution srcList) (\<lambda>q. cols_add p q))"

definition Fields_j_jDeriv_u :: "fields \<Rightarrow> src \<Rightarrow> vec \<Rightarrow> bool \<Rightarrow> error + val" where
  "Fields_j_jDeriv_u self s du_dm adjoint = Inr (Vec du_dm)"

definition Fields_j_jDeriv_m :: "fields \<Rightarrow> src \<Rightarrow> vec \<Rightarrow> bool \<Rightarrow> error + val" where
  "Fields_j_jDeriv_m self s v adjoint = Inr Zero"

definition Fields_j_hPrimary :: "fields \<Rightarrow> ndarray \<Rightarrow> src list \<Rightarrow> error + ndarray" where
  "Fields_j_hPrimary self jSolution srcList =
     for_cols (\<lambda>s c. np_add_val c (hPrimary s)) 0 srcList
       (zeros (ncols (edgeCurl (prob self))) (length jSolution))"

definition Fields_j_hSecondary :: "fields \<Rightarrow> ndarray \<Rightarrow> src list \<Rightarrow> error + ndarray" where
  "Fields_j_hSecondary self jSolution srcList =
     ebind (matmat (MfRho (prob self)) jSolution) (\<lambda>x.
     ebind (matmat (transpose_mat (edgeCurl (prob self))) x) (\<lambda>y.
     ebind (matmat (MeMuI (prob self)) y) (\<lambda>h.
     for_cols (\<lambda>s c.
         ebind (inv_iomega (freq s)) (\<lambda>k.
         ebind (matval (scale_mat k (MeMuI (prob self))) (fst (src_eval s))) (\<lambda>z.
         np_add_val (imul_vec c (- k)) z)))
       0 srcList h)))"

definition Fields_j_hSecondaryDeriv_u :: "fields \<Rightarrow> src \<Rightarrow> vec \<Rightarrow> bool \<Rightarrow> error + val" where
  "Fields_j_hSecondaryDeriv_u self s du_dm adjoint =
     (if \<not> adjoint then
        ebind (inv_iomega (freq s)) (\<lambda>k.
        ebind (matvec (MfRho (prob self)) du_dm) (\<lambda>a.
        ebind (matvec (transpose_mat (edgeCurl (prob self))) a) (\<lambda>b.
        ebind (matvec (scale_mat (- k) (MeMuI (prob self))) b) (\<lambda>c. Inr (Vec c)))))
      else
        ebind (inv_iomega (freq s)) (\<lambda>k.
        ebind (matvec (transpose_mat (MeMuI (prob self))) du_dm) (\<lambda>a.
        ebind (matvec (edgeCurl (prob self)) a) (\<lambda>b.
        ebind (matvec (scale_mat (- k) (transpose_mat (MfRho (prob self)))) b) (\<lambda>c.
        Inr (Vec c))))))"

text \<open>Here \<^verbatim>\<open>src.evalDeriv(self.prob, adjoint=adjoint)\<close> is called without a vector and its
  first component, a map, is applied afterwards.\<close>

definition Fields_j_hSecondaryDeriv_m :: "fields \<Rightarrow> src \<Rightarrow> vec \<Rightarrow> bool \<Rightarrow> error + val" where
  "Fields_j_hSecondaryDeriv_m self s v adjoint =
     (let jSolution = stored self s;
          S_mDeriv = (\<lambda>x. fst (evalDeriv s x adjoint))
      in if \<not> adjoint then
           ebind (inv_iomega (freq s)) (\<lambda>k.
           ebind (matvec (MfRhoDeriv (prob self) jSolution) v) (\<lambda>a.
           ebind (matvec (transpose_mat (edgeCurl (prob self))) a) (\<lambda>b.
           ebind (matvec (scale_mat (- k) (MeMuI (prob self))) b) (\<lambda>hDeriv_m.
           ebind (matval (Me (prob self)) (S_mDeriv v)) (\<lambda>y.
           ebind (matval (scale_mat k (MeMuI (prob self))) y) (\<lambda>z.
           ebind (np_add_val hDeriv_m z) (\<lambda>r. Inr (Vec r))))))))
         else
           ebind (inv_iomega (freq s)) (\<lambda>k.
           ebind (matvec (transpose_mat (MeMuI (prob self))) v) (\<lambda>a.
           ebind (matvec (edgeCurl (prob self)) a) (\<lambda>b.
           ebind (matvec (scale_mat (- k) (transpose_mat (MfRhoDeriv (prob self) jSolution))) b)
             (\<lambda>hDeriv_m.
           ebind (matvec (transpose_mat (MeMuI (prob self))) v) (\<lambda>a'.
           ebind (matvec (transpose_mat (Me (prob self))) a') (\<lambda>y.
           ebind (np_add_val hDeriv_m (scale_val k (S_mDeriv y))) (\<lambda>r. Inr (Vec r)))))))))"

definition Fields_j_hDeriv_u :: "fields \<Rightarrow> src \<Rightarrow> vec \<Rightarrow> bool \<Rightarrow> error + val" where
  "Fields_j_hDeriv_u self s du_dm adjoint = Fields_j_hSecondaryDeriv_u self s du_dm adjoint"

definition Fields_j_hDeriv_m :: "fields \<Rightarrow> src \<Rightarrow> vec \<Rightarrow> bool \<Rightarrow> error + val" where
  "Fields_j_hDeriv_m self s v adjoint = Fields_j_hSecondaryDeriv_m self s v adjoint"

section \<open>\<^verbatim>\<open>Fields_h\<close>\<close>

definition Fields_h_hPrimary :: "fields \<Rightarrow> ndarray \<Rightarrow> src list \<Rightarrow> error + ndarray" where
  "Fields_h_hPrimary self hSolution srcList =
     for_cols (\<lambda>s c. np_add_val c (hPrimary s)) 0 srcList (zeros_like hSolution)"

definition Fields_h_hSecondary :: "fields \<Rightarrow> ndarray \<Rightarrow> src list \<Rightarrow> error + ndarray" where
  "Fields_h_hSecondary self hSolution srcList = Inr hSolution"

definition Fields_h_hDeriv_u :: "fields \<Rightarrow> src \<Rightarrow> vec \<Rightarrow> bool \<Rightarrow> error + val" where
  "Fields_h_hDeriv_u self s du_dm adjoint = Inr (Vec du_dm)"

definition Fields_h_hDeriv_m :: "fields \<Rightarrow> src \<Rightarrow> vec \<Rightarrow> bool \<Rightarrow> error + val" where
  "Fields_h_hDeriv_m self s v adjoint = Inr Zero"

definition Fields_h_jPrimary :: "fields \<Rightarrow> ndarray \<Rightarrow> src list \<Rightarrow> error + ndarray" where
  "Fields_h_jPrimary self hSolution srcList =
     for_cols (\<lambda>s c. np_add_val c (jPrimary s)) 0 srcList
       (zeros (nrows (edgeCurl (prob self))) (length hSolution))"

definition Fields_h_jSecondary :: "fields \<Rightarrow> ndarray \<Rightarrow> src list \<Rightarrow> error + ndarray" where
  "Fields_h_jSecondary self hSolution srcList =
     ebind (matmat (edgeCurl (prob self)) hSolution) (\<lambda>j.
     for_cols (\<lambda>s c. np_add_val c (neg_val (snd (src_eval s)))) 0 srcList j)"

definition Fields_h_jSecondaryDeriv_u :: "fields \<Rightarrow> src \<Rightarrow> vec \<Rightarrow> bool \<Rightarrow> error + val" where
  "Fields_h_jSecondaryDeriv_u self s du_dm adjoint =
     (if \<not> adjoint then
        ebind (matvec (edgeCurl (prob self)) du_dm) (\<lambda>x. Inr (Vec x))
      else
        ebind (matvec (transpose_mat (edgeCurl (prob self))) du_dm) (\<lambda>x. Inr (Vec x)))"

definition Fields_h_jSecondaryDeriv_m :: "fields \<Rightarrow> src \<Rightarrow> vec \<Rightarrow> bool \<Rightarrow> error + val" where
  "Fields_h_jSecondaryDeriv_m self s v adjoint = Inr (neg_val (snd (evalDeriv s v adjoint)))"

definition Fields_h_jDeriv_u :: "fields \<Rightarrow> src \<Rightarrow> vec \<Rightarrow> bool \<Rightarrow> error + val" where
  "Fields_h_jDeriv_u self s du_dm adjoint = Fields_h_jSecondaryDeriv_u self s du_dm adjoint"

definition Fields_h_jDeriv_m :: "fields \<Rightarrow> src \<Rightarrow> vec \<Rightarrow> bool \<Rightarrow> error + val" where
  "Fields_h_jDeriv_m self s v adjoint = Fields_h_jSecondaryDeriv_m self s v adjoint"

section \<open>The base class \<^verbatim>\<open>Fields\<close>\<close>

text \<open>
  The four physical quantities, and the name each has in a method name and in a message.
\<close>

datatype quantity = Qe | Qb | Qh | Qj

fun qname :: "quantity \<Rightarrow> string" where
  "qname Qe = ''e''"
| "qname Qb = ''b''"
| "qname Qh = ''h''"
| "qname Qj = ''j''"

type_synonym accessor = "fields \<Rightarrow> ndarray \<Rightarrow> src list \<Rightarrow> error + ndarray"

type_synonym deriv_accessor = "fields \<Rightarrow> src \<Rightarrow> vec \<Rightarrow> bool \<Rightarrow> error + val"

text \<open>
  \<^verbatim>\<open>getattr(self, '_XPrimary', None)\<close> and its three siblings: the method of that name the
  class of \<open>self\<close> defines, \<open>None\<close> when it defines none (the base class defines none of
  them).
\<close>

fun getattr_Primary :: "variant \<Rightarrow> quantity \<Rightarrow> accessor option" where
  "getattr_Primary Fields_e Qe = Some Fields_e_ePrimary"
| "getattr_Primary Fields_e Qb = Some Fields_e_bPrimary"
| "getattr_Primary Fields_b Qb = Some Fields_b_bPrimary"
| "getattr_Primary Fields_b Qe = Some Fields_b_ePrimary"
| "getattr_Primary Fields_j Qj = Some Fields_j_jPrimary"
| "getattr_Primary Fields_j Qh = Some Fields_j_hPrimary"
| "getattr_Primary Fields_h Qh = Some Fields_h_hPrimary"
| "getattr_Primary Fields_h Qj = Some Fields_h_jPrimary"
| "getattr_Primary _ _ = None"

fun getattr_Secondary :: "variant \<Rightarrow> quantity \<Rightarrow> accessor option" where
  "getattr_Secondary Fields_e Qe = Some Fields_e_eSecondary"
| "getattr_Secondary Fields_e Qb = Some Fields_e_bSecondary"
| "getattr_Secondary Fields_b Qb = Some Fields_b_bSecondary"
| "getattr_Secondary Fields_b Qe = Some Fields_b_eSecondary"
| "getattr_Secondary Fields_j Qj = Some Fields_j_jSecondary"
| "getattr_Secondary Fields_j Qh = Some Fields_j_hSecondary"
| "getattr_Secondary Fields_h Qh = Some Fields_h_hSecondary"
| "getattr_Secondary Fields_h Qj = Some Fields_h_jSecondary"
| "getattr_Secondary _ _ = None"

fun getattr_Deriv_u :: "variant \<Rightarrow> quantity \<Rightarrow> deriv_accessor option" where
  "getattr_Deriv_u Fields_e Qe = Some Fields_e_eDeriv_u"
| "getattr_Deriv_u Fields_e Qb = Some Fields_e_bDeriv_u"
| "getattr_Deriv_u Fields_b Qb = Some Fields_b_bDeriv_u"
| "getattr_Deriv_u Fields_b Qe = Some Fields_b_eDeriv_u"
| "getattr_Deriv_u Fields_j Qj = Some Fields_j_jDeriv_u"
| "getattr_Deriv_u Fields_j Qh = Some Fields_j_hDeriv_u"
| "getattr_Deriv_u Fields_h Qh = Some Fields_h_hDeriv_u"
| "getattr_Deriv_u Fields_h Qj = Some Fields_h_jDeriv_u"
| "getattr_Deriv_u _ _ = None"

fun getattr_Deriv_m :: "variant \<Rightarrow> quantity \<Rightarrow> deriv_accessor option" where
  "getattr_Deriv_m Fields_e Qe = Some Fields_e_eDeriv_m"
| "getattr_Deriv_m Fields_e Qb = Some Fields_e_bDeriv_m"
| "getattr_Deriv_m Fields_b Qb = Some Fields_b_bDeriv_m"
| "getattr_Deriv_m Fields_b Qe = Some Fields_b_eDeriv_m"
| "getattr_Deriv_m Fields_j Qj = Some Fields_j_jDeriv_m"
| "getattr_Deriv_m Fields_j Qh = Some Fields_j_hDeriv_m"
| "getattr_Deriv_m Fields_h Qh = Some Fields_h_hDeriv_m"
| "getattr_Deriv_m Fields_h Qj = Some Fields_h_jDeriv_m"
| "getattr_Deriv_m _ _ = None"

text \<open>
  \<^verbatim>\<open>Fields._e\<close>, \<^verbatim>\<open>Fields._b\<close>, \<^verbatim>\<open>Fields._h\<close> and \<^verbatim>\<open>Fields._j\<close> are one text up to the letter of
  the quantity, here the parameter \<open>X\<close>: the check of the two accessors, the
  NotImplementedError with its message
  \<^verbatim>\<open>'Getting X from %s is not implemented' % self.knownFields.keys()[0]\<close>, the sum.
\<close>

definition Fields_total :: "quantity \<Rightarrow> fields \<Rightarrow> ndarray \<Rightarrow> src list \<Rightarrow> error + ndarray" where
  "Fields_total X self solution srcList =
     (case (getattr_Primary (cls self) X, getattr_Secondary (cls self) X) of
        (Some primary, Some secondary) \<Rightarrow>
          ebind (primary self solution srcList) (\<lambda>p.
          ebind (secondary self solution srcList) (\<lambda>q. cols_add p q))
      | _ \<Rightarrow> Inl (NotImplementedError
                 (''Getting '' @ qname X @ '' from '' @ knownFields_key (cls self)
                    @ '' is not implemented'')))"

text \<open>What \<^verbatim>\<open>self._X(solution, srcList)\<close> calls: the override of \<^verbatim>\<open>Fields_j\<close> for \<^verbatim>\<open>_j\<close>, the
  method of the base class otherwise.\<close>

definition call_total :: "quantity \<Rightarrow> fields \<Rightarrow> ndarray \<Rightarrow> src list \<Rightarrow> error + ndarray" where
  "call_total X self solution srcList =
     (if cls self = Fields_j \<and> X = Qj then Fields_j_j self solution srcList
      else Fields_total X self solution srcList)"

text \<open>
  \<^verbatim>\<open>Fields._eDeriv\<close>, \<^verbatim>\<open>Fields._bDeriv\<close>, \<^verbatim>\<open>Fields._hDeriv\<close> and \<^verbatim>\<open>Fields._jDeriv\<close>, likewise;
  the message is \<^verbatim>\<open>'Getting XDerivs from %s is not implemented'\<close>.
\<close>

definition Fields_Deriv :: "quantity \<Rightarrow> fields \<Rightarrow> src \<Rightarrow> vec \<Rightarrow> vec \<Rightarrow> bool \<Rightarrow> error + val" where
  "Fields_Deriv X self s du_dm v adjoint =
     (case (getattr_Deriv_u (cls self) X, getattr_Deriv_m (cls self) X) of
        (Some deriv_u, Some deriv_m) \<Rightarrow>
          ebind (deriv_u self s du_dm adjoint) (\<lambda>p.
          ebind (deriv_m self s v adjoint) (\<lambda>q. val_add p q))
      | _ \<Rightarrow> Inl (NotImplementedError
                 (''Getting '' @ qname X @ ''Derivs from '' @ knownFields_key (cls self)
                    @ '' is not implemented'')))"

text \<open>The primary field of a source for a quantity: what the primary accessor for \<open>X\<close> reads
  from each source.\<close>

fun src_Primary :: "quantity \<Rightarrow> src \<Rightarrow> val" where
  "src_Primary Qe = ePrimary"
| "src_Primary Qb = bPrimary"
| "src_Primary Qh = hPrimary"
| "src_Primary Qj = jPrimary"

text \<open>
  The accessors that loop over the source list (the primary ones and the secondary ones of
  the quantity a class does not solve for), and the secondary accessors of the quantity a
  class solves for, which return the solution.
\<close>

definition loop_accessors :: "accessor list" where
  "loop_accessors =
     [Fields_e_ePrimary, Fields_e_bPrimary, Fields_e_bSecondary,
      Fields_b_bPrimary, Fields_b_ePrimary, Fields_b_eSecondary,
      Fields_j_jPrimary, Fields_j_hPrimary, Fields_j_hSecondary,
      Fields_h_hPrimary, Fields_h_jPrimary, Fields_h_jSecondary]"

definition native_secondaries :: "accessor list" where
  "native_secondaries =
     [Fields_e_eSecondary, Fields_b_bSecondary, Fields_j_jSecondary, Fields_h_hSecondary]"

text \<open>
  What each accessor leaves in a column that no source is applied to, as a function of the
  column of the solution at that place: zeros for the primary accessors (as many as the
  solution has rows with \<^verbatim>\<open>np.zeros_like\<close>, as many as the curl operator has rows or columns
  with \<^verbatim>\<open>np.zeros\<close>), the product of the operators with the column for the secondary
  accessors that loop, the column itself for those that return the solution.
\<close>

definition initial_column :: "(accessor \<times> (fields \<Rightarrow> vec \<Rightarrow> vec)) list" where
  "initial_column =
     [(Fields_e_ePrimary, \<lambda>self c. replicate (length c) 0),
      (Fields_e_eSecondary, \<lambda>self c. c),
      (Fields_e_bPrimary, \<lambda>self c. replicate (nrows (edgeCurl (prob self))) 0),
      (Fields_e_bSecondary, \<lambda>self c. mv (edgeCurl (prob self)) c),
      (Fields_b_bPrimary, \<lambda>self c. replicate (length c) 0),
      (Fields_b_bSecondary, \<lambda>self c. c),
      (Fields_b_ePrimary, \<lambda>self c. replicate (ncols (edgeCurl (prob self))) 0),
      (Fields_b_eSecondary, \<lambda>self c.
         mv (MeSigmaI (prob self))
           (mv (transpose_mat (edgeCurl (prob self))) (mv (MfMui (prob self)) c))),
      (Fields_j_jPrimary, \<lambda>self c. replicate (length c) 0),
      (Fields_j_jSecondary, \<lambda>self c. c),
      (Fields_j_hPrimary, \<lambda>self c. replicate (ncols (edgeCurl (prob self))) 0),
      (Fields_j_hSecondary, \<lambda>self c.
         mv (MeMuI (prob self))
           (mv (transpose_mat (edgeCurl (prob self))) (mv (MfRho (prob self)) c))),
      (Fields_h_hPrimary, \<lambda>self c. replicate (length c) 0),
      (Fields_h_hSecondary, \<lambda>self c. c),
      (Fields_h_jPrimary, \<lambda>self c. replicate (nrows (edgeCurl (prob self))) 0),
      (Fields_h_jSecondary, \<lambda>self c. mv (edgeCurl (prob self)) c)]"

text \<open>
  The number of rows of the primary array of quantity \<open>X\<close> in a class, given a column of the
  solution: the curl operator's \<^verbatim>\<open>shape[0]\<close> or \<^verbatim>\<open>shape[1]\<close> where the class builds the array
  with \<^verbatim>\<open>np.zeros\<close>, the length of the solution's columns where it builds it with
  \<^verbatim>\<open>np.zeros_like\<close>.
\<close>

fun primary_rows :: "variant \<Rightarrow> quantity \<Rightarrow> fields \<Rightarrow> vec \<Rightarrow> nat" where
  "primary_rows Fields_e Qb self c = nrows (edgeCurl (prob self))"
| "primary_rows Fields_b Qe self c = ncols (edgeCurl (prob self))"
| "primary_rows Fields_j Qh self c = ncols (edgeCurl (prob self))"
| "primary_rows Fields_h Qj self c = nrows (edgeCurl (prob self))"
| "primary_rows _ _ self c = length c"

section \<open>A toy mesh\<close>

text \<open>
  Concrete inputs for the theorems below: a curl operator on three edges and two faces,
  diagonal mass matrices, a source at 10 Hz without primary field and without source
  terms, and the fields objects of the four classes on them.
\<close>

definition toy_curl :: mat where
  "toy_curl = \<lparr>nrows = 2, ncols = 3, rows = [[1, - 1, 0], [0, 1, - 1]]\<rparr>"

definition diag2 :: "complex \<Rightarrow> complex \<Rightarrow> mat" where
  "diag2 a b = \<lparr>nrows = 2, ncols = 2, rows = [[a, 0], [0, b]]\<rparr>"

definition diag3 :: "complex \<Rightarrow> complex \<Rightarrow> complex \<Rightarrow> mat" where
  "diag3 a b c = \<lparr>nrows = 3, ncols = 3, rows = [[a, 0, 0], [0, b, 0], [0, 0, c]]\<rparr>"

definition toy_problem :: problem where
  "toy_problem =
     \<lparr>edgeCurl = toy_curl, MeSigmaI = diag3 1 2 3, MfMui = diag2 2 5,
      MeSigmaIDeriv = (\<lambda>w. diag3 (w ! 0) (w ! 1) (w ! 2)), Me = diag3 1 1 1,
      MeMuI = diag3 1 2 3, MfRho = diag2 2 5,
      MfRhoDeriv = (\<lambda>w. diag2 (w ! 0) (w ! 1))\<rparr>"

definition toy_src :: src where
  "toy_src =
     \<lparr>freq = 10, ePrimary = Zero, bPrimary = Zero, hPrimary = Zero, jPrimary = Zero,
      src_eval = (Zero, Zero), evalDeriv = (\<lambda>v adjoint. (Zero, Zero))\<rparr>"

definition toy_fields :: "variant \<Rightarrow> fields" where
  "toy_fields c = \<lparr>cls = c, prob = toy_problem, stored = (\<lambda>s. [])\<rparr>"

text \<open>
  A source whose electric source term depends on the model: its derivative is the operator
  \<open>toy_dSe\<close> from a model space of three cells to the edges, applied in forward mode and
  transposed in adjoint mode, as the source contract asks.
\<close>

definition toy_dSe :: mat where
  "toy_dSe = \<lparr>nrows = 3, ncols = 3, rows = [[0, 1, 0], [0, 0, 0], [0, 0, 0]]\<rparr>"

definition toy_src_dSe :: src where
  "toy_src_dSe =
     toy_src\<lparr>evalDeriv :=
       (\<lambda>v adjoint. (Zero, Vec (mv (if adjoint then transpose_mat toy_dSe else toy_dSe) v)))\<rparr>"

section \<open>Facts of linear algebra\<close>

lemma ebind_Inr [simp]: "ebind (Inr a) f = f a"
  by (simp add: ebind_def)

lemma ebind_Inl [simp]: "ebind (Inl e) f = Inl e"
  by (simp add: ebind_def)

lemma dot_sum_nth:
  assumes "length x = length y"
  shows "dot x y = (\<Sum>i<length x. x ! i * y ! i)"
proof -
  have "dot x y = (\<Sum>i = 0..<length (map2 (*) x y). map2 (*) x y ! i)"
    unfolding dot_def by (rule sum_list_sum_nth)
  also have "\<dots> = (\<Sum>i = 0..<length x. x ! i * y ! i)"
    using assms by (intro sum.cong) auto
  finally show ?thesis by (simp add: lessThan_atLeast0)
qed

lemma length_mv [simp]: "length (mv M x) = length (rows M)"
  by (simp add: mv_def)

lemma wf_mat_row: "wf_mat M \<Longrightarrow> i < nrows M \<Longrightarrow> length (rows M ! i) = ncols M"
  by (simp add: wf_mat_def list_all_length)

lemma wf_transpose_mat: "wf_mat M \<Longrightarrow> wf_mat (transpose_mat M)"
  by (simp add: wf_mat_def transpose_mat_def list_all_length)

lemma shape_transpose_mat [simp]:
  "nrows (transpose_mat M) = ncols M" "ncols (transpose_mat M) = nrows M"
  by (simp_all add: transpose_mat_def)

lemma length_rows_transpose [simp]: "length (rows (transpose_mat M)) = ncols M"
  by (simp add: transpose_mat_def)

lemma wf_mat_length_rows: "wf_mat M \<Longrightarrow> length (rows M) = nrows M"
  by (simp add: wf_mat_def)

lemma matvec_Inr: "length x = ncols M \<Longrightarrow> matvec M x = Inr (mv M x)"
  by (simp add: matvec_def)

lemma mv_nth: "i < length (rows M) \<Longrightarrow> mv M x ! i = dot (rows M ! i) x"
  by (simp add: mv_def)

lemma mv_transpose_nth:
  "wf_mat M \<Longrightarrow> j < ncols M \<Longrightarrow> length w = nrows M \<Longrightarrow>
   mv (transpose_mat M) w ! j = (\<Sum>i<nrows M. rows M ! i ! j * w ! i)"
  by (simp add: mv_def transpose_mat_def dot_sum_nth wf_mat_def)

lemma dot_mv_transpose:
  assumes M: "wf_mat M" and x: "length x = ncols M" and w: "length w = nrows M"
  shows "dot w (mv M x) = dot (mv (transpose_mat M) w) x"
proof -
  have len: "length (rows M) = nrows M"
    using M by (simp add: wf_mat_def)
  have "dot w (mv M x) = (\<Sum>i<nrows M. w ! i * (\<Sum>j<ncols M. rows M ! i ! j * x ! j))"
    using w len x by (simp add: dot_sum_nth mv_nth wf_mat_row [OF M])
  also have "\<dots> = (\<Sum>i<nrows M. \<Sum>j<ncols M. rows M ! i ! j * w ! i * x ! j)"
    by (simp add: sum_distrib_left mult_ac)
  also have "\<dots> = (\<Sum>j<ncols M. \<Sum>i<nrows M. rows M ! i ! j * w ! i * x ! j)"
    by (rule sum.swap)
  also have "\<dots> = (\<Sum>j<ncols M. mv (transpose_mat M) w ! j * x ! j)"
    using M w by (simp add: mv_transpose_nth sum_distrib_right)
  also have "\<dots> = dot (mv (transpose_mat M) w) x"
    using x by (simp add: dot_sum_nth transpose_mat_def)
  finally show ?thesis .
qed

lemma dot_commute: "length x = length y \<Longrightarrow> dot x y = dot y x"
  by (simp add: dot_sum_nth mult.commute)

section \<open>Facts about the loop over the sources\<close>

lemma ebind_eq_Inr: "ebind r f = Inr b \<longleftrightarrow> (\<exists>a. r = Inr a \<and> f a = Inr b)"
  by (cases r) (simp_all add: ebind_def)

lemma matmat_Inr_iff:
  "matmat M X = Inr Y \<longleftrightarrow> list_all (\<lambda>c. length c = ncols M) X \<and> Y = map (mv M) X"
  by (induction X arbitrary: Y) (auto simp: ebind_eq_Inr matvec_def)

lemma for_cols_Cons:
  "for_cols step i (s # ss) A =
     (if i < length A then
        ebind (new_col (step s) (A ! i)) (\<lambda>c. for_cols step (Suc i) ss (A[i := c]))
      else Inl IndexError)"
  by (cases "step s (A ! i)") (simp_all add: new_col_def)

lemma for_cols_Nil_iff:
  "for_cols step i [] A = Inr R \<longleftrightarrow> R = A"
  by auto

lemma for_cols_Inr_iff:
  "for_cols step i srcs A = Inr R \<longleftrightarrow>
     length R = length A \<and> (srcs \<noteq> [] \<longrightarrow> i + length srcs \<le> length A) \<and>
     (\<forall>j<length srcs. new_col (step (srcs ! j)) (A ! (i + j)) = Inr (R ! (i + j))) \<and>
     (\<forall>m<length A. m < i \<or> i + length srcs \<le> m \<longrightarrow> R ! m = A ! m)"
proof (induction srcs arbitrary: i A)
  case Nil
  have "R = A \<longleftrightarrow> length R = length A \<and> (\<forall>m<length A. m < i \<or> i \<le> m \<longrightarrow> R ! m = A ! m)"
    by (metis nth_equalityI not_le_imp_less)
  then show ?case by (simp add: for_cols_Nil_iff del: for_cols.simps)
next
  case (Cons s ss)
  show ?case
  proof (cases "i < length A")
    case False
    then show ?thesis by (simp del: for_cols.simps add: for_cols_Cons)
  next
    case True
    show ?thesis
    proof
      assume "for_cols step i (s # ss) A = Inr R"
      then have "ebind (new_col (step s) (A ! i)) (\<lambda>c. for_cols step (Suc i) ss (A[i := c])) = Inr R"
        using True by (simp del: for_cols.simps add: for_cols_Cons)
      then obtain c where c: "new_col (step s) (A ! i) = Inr c"
        and rest: "for_cols step (Suc i) ss (A[i := c]) = Inr R"
        unfolding ebind_eq_Inr by blast
      from rest have IH: "length R = length (A[i := c]) \<and> (ss \<noteq> [] \<longrightarrow> Suc i + length ss \<le> length (A[i := c])) \<and>
         (\<forall>j<length ss. new_col (step (ss ! j)) (A[i := c] ! (Suc i + j)) = Inr (R ! (Suc i + j))) \<and>
         (\<forall>m<length (A[i := c]). m < Suc i \<or> Suc i + length ss \<le> m \<longrightarrow> R ! m = A[i := c] ! m)"
        unfolding Cons.IH [of "Suc i" "A[i := c]", symmetric] .
      from IH have len: "length R = length A"
        and le: "ss \<noteq> [] \<longrightarrow> Suc i + length ss \<le> length A"
        by simp_all
      from IH have steps: "\<And>j. j < length ss \<Longrightarrow>
          new_col (step (ss ! j)) (A[i := c] ! (Suc i + j)) = Inr (R ! (Suc i + j))"
        by blast
      from IH have keep: "\<And>m. m < length A \<Longrightarrow> m < Suc i \<or> Suc i + length ss \<le> m \<Longrightarrow>
          R ! m = A[i := c] ! m"
        by (metis length_list_update)
      have Ri: "R ! i = c" using keep [of i] True by simp
      have A: "\<forall>j<length (s # ss). new_col (step ((s # ss) ! j)) (A ! (i + j)) = Inr (R ! (i + j))"
      proof (intro allI impI)
        fix j assume j: "j < length (s # ss)"
        show "new_col (step ((s # ss) ! j)) (A ! (i + j)) = Inr (R ! (i + j))"
        proof (cases j)
          case 0
          then show ?thesis using c Ri by simp
        next
          case (Suc j')
          then show ?thesis using steps [of j'] j by simp
        qed
      qed
      have B: "\<forall>m<length A. m < i \<or> i + length (s # ss) \<le> m \<longrightarrow> R ! m = A ! m"
      proof (intro allI impI)
        fix m assume m: "m < length A" "m < i \<or> i + length (s # ss) \<le> m"
        then have "R ! m = A[i := c] ! m" using keep [of m] by auto
        then show "R ! m = A ! m" using m by auto
      qed
      have C: "i + length (s # ss) \<le> length A"
        using le True by (cases ss) simp_all
      show "length R = length A \<and> (s # ss \<noteq> [] \<longrightarrow> i + length (s # ss) \<le> length A) \<and>
         (\<forall>j<length (s # ss). new_col (step ((s # ss) ! j)) (A ! (i + j)) = Inr (R ! (i + j))) \<and>
         (\<forall>m<length A. m < i \<or> i + length (s # ss) \<le> m \<longrightarrow> R ! m = A ! m)"
        using len A B C by blast
    next
      assume a: "length R = length A \<and> (s # ss \<noteq> [] \<longrightarrow> i + length (s # ss) \<le> length A) \<and>
         (\<forall>j<length (s # ss). new_col (step ((s # ss) ! j)) (A ! (i + j)) = Inr (R ! (i + j))) \<and>
         (\<forall>m<length A. m < i \<or> i + length (s # ss) \<le> m \<longrightarrow> R ! m = A ! m)"
      from a have len: "length R = length A"
        and le: "i + length (s # ss) \<le> length A"
        by simp_all
      from a have st: "\<And>j. j < length (s # ss) \<Longrightarrow>
          new_col (step ((s # ss) ! j)) (A ! (i + j)) = Inr (R ! (i + j))"
        by blast
      from a have kp: "\<And>m. m < length A \<Longrightarrow> m < i \<or> i + length (s # ss) \<le> m \<Longrightarrow> R ! m = A ! m"
        by blast
      have c: "new_col (step s) (A ! i) = Inr (R ! i)"
        using st [of 0] by simp
      have steps: "\<forall>j<length ss. new_col (step (ss ! j)) (A[i := R ! i] ! (Suc i + j)) = Inr (R ! (Suc i + j))"
      proof (intro allI impI)
        fix j assume "j < length ss"
        then show "new_col (step (ss ! j)) (A[i := R ! i] ! (Suc i + j)) = Inr (R ! (Suc i + j))"
          using st [of "Suc j"] by simp
      qed
      have keep: "\<forall>m<length (A[i := R ! i]). m < Suc i \<or> Suc i + length ss \<le> m \<longrightarrow> R ! m = A[i := R ! i] ! m"
      proof (intro allI impI)
        fix m assume m: "m < length (A[i := R ! i])" "m < Suc i \<or> Suc i + length ss \<le> m"
        show "R ! m = A[i := R ! i] ! m"
        proof (cases "m = i")
          case True
          then show ?thesis using m by simp
        next
          case False
          then have "m < i \<or> i + length (s # ss) \<le> m" using m by auto
          then have "R ! m = A ! m" using kp [of m] m by simp
          then show ?thesis using False by simp
        qed
      qed
      have "length R = length (A[i := R ! i]) \<and> (ss \<noteq> [] \<longrightarrow> Suc i + length ss \<le> length (A[i := R ! i]))"
        using len le by simp
      with steps keep have "for_cols step (Suc i) ss (A[i := R ! i]) = Inr R"
        unfolding Cons.IH [of "Suc i" "A[i := R ! i]"] by blast
      then show "for_cols step i (s # ss) A = Inr R"
        using True c by (simp del: for_cols.simps add: for_cols_Cons)
    qed
  qed
qed

lemma for_cols_full:
  assumes len: "length A = length srcs"
    and st: "\<And>j. j < length srcs \<Longrightarrow> new_col (step (srcs ! j)) (A ! j) = Inr (f j)"
  shows "for_cols step 0 srcs A = Inr (map f [0..<length srcs])"
  unfolding for_cols_Inr_iff using len st by simp

lemma inv_iomega_Inr:
  "f \<noteq> 0 \<Longrightarrow> inv_iomega f = Inr (1 / (\<i> * complex_of_real (omega f)))"
  by (simp add: inv_iomega_def omega_def)

lemma setitem_col_same: "length v = length c \<Longrightarrow> setitem_col c v = Inr v"
  by (simp add: setitem_col_def)

lemma map2_add_replicate_0: "map2 (+) x (replicate (length x) (0::complex)) = x"
  by (induction x) simp_all

lemma np_add_val_fits:
  "fits (length x) v \<Longrightarrow> np_add_val x v = Inr (map2 (+) x (as_vec (length x) v))"
  by (cases v) (simp_all add: vadd_def map2_add_replicate_0)

lemma length_np_add_val_fits:
  "fits (length x) v \<Longrightarrow> length (map2 (+) x (as_vec (length x) v)) = length x"
  by (cases v) simp_all

lemma fits_scale_val [simp]: "fits n (scale_val k v) = fits n v"
  by (cases v) (simp_all add: scale_vec_def)

lemma as_vec_scale_val: "as_vec n (scale_val k v) = scale_vec k (as_vec n v)"
  by (cases v) (simp_all add: scale_vec_def)

lemma imul_vec_scale_vec: "imul_vec x c = scale_vec c x"
  by (simp add: imul_vec_def scale_vec_def mult.commute)

lemma length_scale_vec [simp]: "length (scale_vec c x) = length x"
  by (simp add: scale_vec_def)

lemma matmat_has_shape:
  "has_shape (ncols M) k X \<Longrightarrow> matmat M X = Inr (map (mv M) X)"
  by (simp add: matmat_Inr_iff has_shape_def)

lemma dot_Nil [simp]: "dot [] y = 0" "dot x [] = 0"
  by (simp_all add: dot_def)

lemma dot_Cons [simp]: "dot (a # x) (b # y) = a * b + dot x y"
  by (simp add: dot_def)

lemma dot_map_scale: "dot (map (\<lambda>a. c * a) r) y = c * dot r y"
proof (induction r arbitrary: y)
  case Nil
  show ?case by simp
next
  case (Cons a r)
  show ?case by (cases y) (simp_all add: Cons.IH distrib_left mult.assoc)
qed

lemma dot_map_uminus: "dot (map uminus r) y = - dot r y"
  using dot_map_scale [of "- 1" r y] by simp

lemma dot_replicate_0: "dot r (replicate n 0) = 0"
proof (induction r arbitrary: n)
  case Nil
  show ?case by simp
next
  case (Cons a r)
  show ?case by (cases n) (simp_all add: Cons.IH)
qed

lemma mv_scale_mat: "mv (scale_mat c M) y = scale_vec c (mv M y)"
  by (simp add: mv_def scale_mat_def scale_vec_def dot_map_scale)

lemma mv_neg_mat: "mv (neg_mat M) y = map uminus (mv M y)"
  by (simp add: mv_def neg_mat_def dot_map_uminus)

lemma mv_replicate_0: "mv M (replicate n 0) = replicate (length (rows M)) 0"
  by (simp add: mv_def dot_replicate_0 map_replicate_const)

lemma shape_scale_mat [simp]:
  "nrows (scale_mat c M) = nrows M" "ncols (scale_mat c M) = ncols M"
  "length (rows (scale_mat c M)) = length (rows M)"
  by (simp_all add: scale_mat_def)

lemma shape_neg_mat [simp]:
  "nrows (neg_mat M) = nrows M" "ncols (neg_mat M) = ncols M"
  "length (rows (neg_mat M)) = length (rows M)"
  by (simp_all add: neg_mat_def)

lemma matval_fits:
  "fits (ncols M) v \<Longrightarrow>
   \<exists>z. matval M v = Inr z \<and> fits (length (rows M)) z
       \<and> as_vec (length (rows M)) z = mv M (as_vec (ncols M) v)"
  by (cases v) (simp_all add: matvec_def mv_replicate_0)

lemma map2_add_uminus:
  "length x = length z \<Longrightarrow> map2 (+) x (map uminus z) = map2 (-) x (z :: complex list)"
  by (induction x z rule: list_induct2) simp_all

lemma length_map2_as_vec:
  "fits (length x) v \<Longrightarrow> length (map2 f x (as_vec (length x) v)) = length x"
  by (cases v) simp_all

lemma getattr_None_not_override:
  "getattr_Primary c X = None \<or> getattr_Secondary c X = None \<Longrightarrow> \<not> (c = Fields_j \<and> X = Qj)"
  by auto

section \<open>Facts about the primary accessors\<close>

lemma zeros_like_map_length: "zeros_like A = map (\<lambda>n. replicate n 0) (map length A)"
  by (simp add: zeros_like_def)

lemma zeros_like_cong: "map length A = map length B \<Longrightarrow> zeros_like A = zeros_like B"
  by (simp only: zeros_like_map_length)

lemma length_cong: "map length A = map length B \<Longrightarrow> length A = length B"
  by (metis length_map)

lemma map2_add_zero_left: "length y = n \<Longrightarrow> map2 (+) (replicate n (0::complex)) y = y"
  by (induction y arbitrary: n) auto

lemmas primary_defs =
  Fields_e_ePrimary_def Fields_e_bPrimary_def Fields_b_bPrimary_def Fields_b_ePrimary_def
  Fields_j_jPrimary_def Fields_j_hPrimary_def Fields_h_hPrimary_def Fields_h_jPrimary_def

lemma getattr_Primary_cases:
  assumes "getattr_Primary c X = Some p"
  obtains "c = Fields_e" "X = Qe" "p = Fields_e_ePrimary"
  | "c = Fields_e" "X = Qb" "p = Fields_e_bPrimary"
  | "c = Fields_b" "X = Qb" "p = Fields_b_bPrimary"
  | "c = Fields_b" "X = Qe" "p = Fields_b_ePrimary"
  | "c = Fields_j" "X = Qj" "p = Fields_j_jPrimary"
  | "c = Fields_j" "X = Qh" "p = Fields_j_hPrimary"
  | "c = Fields_h" "X = Qh" "p = Fields_h_hPrimary"
  | "c = Fields_h" "X = Qj" "p = Fields_h_jPrimary"
  using assms by (cases c; cases X) auto

lemma primary_shape_only:
  assumes "getattr_Primary c X = Some p" and "map length sol = map length sol'"
  shows "p self sol srcList = p self sol' srcList"
proof -
  have z: "zeros_like sol = zeros_like sol'" and l: "length sol = length sol'"
    using assms(2) by (rule zeros_like_cong, rule length_cong)
  from assms(1) show ?thesis
    by (cases rule: getattr_Primary_cases) (simp_all only: primary_defs z l)
qed

lemma for_cols_prefix:
  assumes len: "length srcs \<le> length A"
    and st: "\<And>j. j < length srcs \<Longrightarrow> new_col (step (srcs ! j)) (A ! j) = Inr (f j)"
  shows "for_cols step 0 srcs A = Inr (map f [0..<length srcs] @ drop (length srcs) A)"
  unfolding for_cols_Inr_iff using len st by (auto simp: nth_append)

lemma new_col_primary:
  assumes "fits n p"
  shows "new_col (\<lambda>c. np_add_val c p) (replicate n 0) = Inr (as_vec n p)"
proof (cases p)
  case Zero
  then show ?thesis by (simp add: new_col_def setitem_col_def)
next
  case (Vec y)
  with assms have "length y = n" by simp
  then show ?thesis
    using Vec by (simp add: new_col_def vadd_def setitem_col_def map2_add_zero_left)
qed

lemma primary_loop_returns:
  assumes len: "length srcs \<le> length A"
    and col: "\<And>j. j < length srcs \<Longrightarrow> A ! j = replicate (n j) 0"
    and ft: "\<And>j. j < length srcs \<Longrightarrow> fits (n j) (prim (srcs ! j))"
  shows "\<exists>R. for_cols (\<lambda>s c. np_add_val c (prim s)) 0 srcs A = Inr R \<and> length R = length A
           \<and> (\<forall>i<length srcs. R ! i = as_vec (n i) (prim (srcs ! i)))"
proof -
  have st: "new_col (\<lambda>c. np_add_val c (prim (srcs ! j))) (A ! j)
      = Inr (as_vec (n j) (prim (srcs ! j)))" if "j < length srcs" for j
    using col [OF that] new_col_primary [OF ft [OF that]] by simp
  have "for_cols (\<lambda>s c. np_add_val c (prim s)) 0 srcs A
      = Inr (map (\<lambda>j. as_vec (n j) (prim (srcs ! j))) [0..<length srcs] @ drop (length srcs) A)"
    using len st by (rule for_cols_prefix)
  then show ?thesis using len by (auto simp: nth_append)
qed


lemma primary_returns:
  assumes p: "getattr_Primary c X = Some p" and len: "length srcList \<le> length sol"
    and ft: "\<And>i. i < length srcList \<Longrightarrow>
        fits (primary_rows c X self (sol ! i)) (src_Primary X (srcList ! i))"
  shows "\<exists>R. p self sol srcList = Inr R \<and> length R = length sol
           \<and> (\<forall>i<length srcList.
                 R ! i = as_vec (primary_rows c X self (sol ! i)) (src_Primary X (srcList ! i)))"
  using p
proof (cases rule: getattr_Primary_cases)
  case 1
  have "\<exists>R. for_cols (\<lambda>s c. np_add_val c (ePrimary s)) 0 srcList (zeros_like sol) = Inr R
      \<and> length R = length (zeros_like sol)
      \<and> (\<forall>i<length srcList. R ! i = as_vec (primary_rows c X self (sol ! i)) (ePrimary (srcList ! i)))"
  proof (rule primary_loop_returns)
    show "length srcList \<le> length (zeros_like sol)"
      using len by (simp add: zeros_like_def)
    show "(zeros_like sol) ! j = replicate (primary_rows c X self (sol ! j)) 0"
      if "j < length srcList" for j
      using that len 1 by (simp add: zeros_like_def)
    show "fits (primary_rows c X self (sol ! j)) (ePrimary (srcList ! j))"
      if "j < length srcList" for j
      using ft [OF that] 1 by simp
  qed
  then show ?thesis
    using 1 by (simp add: primary_defs zeros_like_def)
next
  case 2
  have "\<exists>R. for_cols (\<lambda>s c. np_add_val c (bPrimary s)) 0 srcList (zeros (nrows (edgeCurl (prob self))) (length sol)) = Inr R
      \<and> length R = length (zeros (nrows (edgeCurl (prob self))) (length sol))
      \<and> (\<forall>i<length srcList. R ! i = as_vec (primary_rows c X self (sol ! i)) (bPrimary (srcList ! i)))"
  proof (rule primary_loop_returns)
    show "length srcList \<le> length (zeros (nrows (edgeCurl (prob self))) (length sol))"
      using len by (simp add: zeros_def)
    show "(zeros (nrows (edgeCurl (prob self))) (length sol)) ! j = replicate (primary_rows c X self (sol ! j)) 0"
      if "j < length srcList" for j
      using that len 2 by (simp add: zeros_def)
    show "fits (primary_rows c X self (sol ! j)) (bPrimary (srcList ! j))"
      if "j < length srcList" for j
      using ft [OF that] 2 by simp
  qed
  then show ?thesis
    using 2 by (simp add: primary_defs zeros_def)
next
  case 3
  have "\<exists>R. for_cols (\<lambda>s c. np_add_val c (bPrimary s)) 0 srcList (zeros_like sol) = Inr R
      \<and> length R = length (zeros_like sol)
      \<and> (\<forall>i<length srcList. R ! i = as_vec (primary_rows c X self (sol ! i)) (bPrimary (srcList ! i)))"
  proof (rule primary_loop_returns)
    show "length srcList \<le> length (zeros_like sol)"
      using len by (simp add: zeros_like_def)
    show "(zeros_like sol) ! j = replicate (primary_rows c X self (sol ! j)) 0"
      if "j < length srcList" for j
      using that len 3 by (simp add: zeros_like_def)
    show "fits (primary_rows c X self (sol ! j)) (bPrimary (srcList ! j))"
      if "j < length srcList" for j
      using ft [OF that] 3 by simp
  qed
  then show ?thesis
    using 3 by (simp add: primary_defs zeros_like_def)
next
  case 4
  have "\<exists>R. for_cols (\<lambda>s c. np_add_val c (ePrimary s)) 0 srcList (zeros (ncols (edgeCurl (prob self))) (length sol)) = Inr R
      \<and> length R = length (zeros (ncols (edgeCurl (prob self))) (length sol))
      \<and> (\<forall>i<length srcList. R ! i = as_vec (primary_rows c X self (sol ! i)) (ePrimary (srcList ! i)))"
  proof (rule primary_loop_returns)
    show "length srcList \<le> length (zeros (ncols (edgeCurl (prob self))) (length sol))"
      using len by (simp add: zeros_def)
    show "(zeros (ncols (edgeCurl (prob self))) (length sol)) ! j = replicate (primary_rows c X self (sol ! j)) 0"
      if "j < length srcList" for j
      using that len 4 by (simp add: zeros_def)
    show "fits (primary_rows c X self (sol ! j)) (ePrimary (srcList ! j))"
      if "j < length srcList" for j
      using ft [OF that] 4 by simp
  qed
  then show ?thesis
    using 4 by (simp add: primary_defs zeros_def)
next
  case 5
  have "\<exists>R. for_cols (\<lambda>s c. np_add_val c (jPrimary s)) 0 srcList (zeros_like sol) = Inr R
      \<and> length R = length (zeros_like sol)
      \<and> (\<forall>i<length srcList. R ! i = as_vec (primary_rows c X self (sol ! i)) (jPrimary (srcList ! i)))"
  proof (rule primary_loop_returns)
    show "length srcList \<le> length (zeros_like sol)"
      using len by (simp add: zeros_like_def)
    show "(zeros_like sol) ! j = replicate (primary_rows c X self (sol ! j)) 0"
      if "j < length srcList" for j
      using that len 5 by (simp add: zeros_like_def)
    show "fits (primary_rows c X self (sol ! j)) (jPrimary (srcList ! j))"
      if "j < length srcList" for j
      using ft [OF that] 5 by simp
  qed
  then show ?thesis
    using 5 by (simp add: primary_defs zeros_like_def)
next
  case 6
  have "\<exists>R. for_cols (\<lambda>s c. np_add_val c (hPrimary s)) 0 srcList (zeros (ncols (edgeCurl (prob self))) (length sol)) = Inr R
      \<and> length R = length (zeros (ncols (edgeCurl (prob self))) (length sol))
      \<and> (\<forall>i<length srcList. R ! i = as_vec (primary_rows c X self (sol ! i)) (hPrimary (srcList ! i)))"
  proof (rule primary_loop_returns)
    show "length srcList \<le> length (zeros (ncols (edgeCurl (prob self))) (length sol))"
      using len by (simp add: zeros_def)
    show "(zeros (ncols (edgeCurl (prob self))) (length sol)) ! j = replicate (primary_rows c X self (sol ! j)) 0"
      if "j < length srcList" for j
      using that len 6 by (simp add: zeros_def)
    show "fits (primary_rows c X self (sol ! j)) (hPrimary (srcList ! j))"
      if "j < length srcList" for j
      using ft [OF that] 6 by simp
  qed
  then show ?thesis
    using 6 by (simp add: primary_defs zeros_def)
next
  case 7
  have "\<exists>R. for_cols (\<lambda>s c. np_add_val c (hPrimary s)) 0 srcList (zeros_like sol) = Inr R
      \<and> length R = length (zeros_like sol)
      \<and> (\<forall>i<length srcList. R ! i = as_vec (primary_rows c X self (sol ! i)) (hPrimary (srcList ! i)))"
  proof (rule primary_loop_returns)
    show "length srcList \<le> length (zeros_like sol)"
      using len by (simp add: zeros_like_def)
    show "(zeros_like sol) ! j = replicate (primary_rows c X self (sol ! j)) 0"
      if "j < length srcList" for j
      using that len 7 by (simp add: zeros_like_def)
    show "fits (primary_rows c X self (sol ! j)) (hPrimary (srcList ! j))"
      if "j < length srcList" for j
      using ft [OF that] 7 by simp
  qed
  then show ?thesis
    using 7 by (simp add: primary_defs zeros_like_def)
next
  case 8
  have "\<exists>R. for_cols (\<lambda>s c. np_add_val c (jPrimary s)) 0 srcList (zeros (nrows (edgeCurl (prob self))) (length sol)) = Inr R
      \<and> length R = length (zeros (nrows (edgeCurl (prob self))) (length sol))
      \<and> (\<forall>i<length srcList. R ! i = as_vec (primary_rows c X self (sol ! i)) (jPrimary (srcList ! i)))"
  proof (rule primary_loop_returns)
    show "length srcList \<le> length (zeros (nrows (edgeCurl (prob self))) (length sol))"
      using len by (simp add: zeros_def)
    show "(zeros (nrows (edgeCurl (prob self))) (length sol)) ! j = replicate (primary_rows c X self (sol ! j)) 0"
      if "j < length srcList" for j
      using that len 8 by (simp add: zeros_def)
    show "fits (primary_rows c X self (sol ! j)) (jPrimary (srcList ! j))"
      if "j < length srcList" for j
      using ft [OF that] 8 by simp
  qed
  then show ?thesis
    using 8 by (simp add: primary_defs zeros_def)
qed

section \<open>Facts about the toy mesh\<close>

lemma upt_0_3: "[0..<3] = [0, 1, 2]"
  by (simp add: numeral_3_eq_3 numeral_2_eq_2)

lemma upt_0_2: "[0..<2] = [0, 1]"
  by (simp add: numeral_2_eq_2)

lemma wf_toy_dSe: "wf_mat toy_dSe"
  by (simp add: toy_dSe_def wf_mat_def)

lemma toy_src_dSe_transposes:
  assumes "length v = 3" and "length y = 3"
  shows "\<exists>a b. snd (evalDeriv toy_src_dSe v False) = Vec a
           \<and> snd (evalDeriv toy_src_dSe y True) = Vec b \<and> dot y a = dot v b"
proof -
  have "dot y (mv toy_dSe v) = dot (mv (transpose_mat toy_dSe) y) v"
    using assms by (intro dot_mv_transpose wf_toy_dSe) (simp_all add: toy_dSe_def)
  also have "\<dots> = dot v (mv (transpose_mat toy_dSe) y)"
    using assms by (intro dot_commute) (simp add: toy_dSe_def)
  finally show ?thesis
    by (simp add: toy_src_dSe_def toy_src_def)
qed

section \<open>Facts about the accessors that loop over the sources\<close>

lemma ebind_assoc: "ebind (ebind m f) g = ebind m (\<lambda>x. ebind (f x) g)"
  by (cases m) simp_all

lemma for_cols_single:
  assumes "for_cols step 0 srcs A = Inr R" and "k < length srcs"
  shows "k < length A \<and> for_cols step 0 [srcs ! k] [A ! k] = Inr [R ! k]"
proof -
  from assms have kA: "k < length A"
    and st: "new_col (step (srcs ! k)) (A ! k) = Inr (R ! k)"
    unfolding for_cols_Inr_iff by auto
  have "for_cols step 0 [srcs ! k] [A ! k]
      = ebind (new_col (step (srcs ! k)) (A ! k)) (\<lambda>c. Inr [c])"
    by (simp del: for_cols.simps add: for_cols_Cons for_cols.simps(1))
  with st kA show ?thesis by simp
qed

lemma zeros_like_single: "k < length sol \<Longrightarrow> zeros_like [sol ! k] = [zeros_like sol ! k]"
  by (simp add: zeros_like_def)

lemma zeros_single: "k < m \<Longrightarrow> zeros n (length [c]) = [zeros n m ! k]"
  by (simp add: zeros_def)

lemma matmat_single:
  "matmat M X = Inr Y \<Longrightarrow> k < length X \<Longrightarrow> matmat M [X ! k] = Inr [Y ! k]"
  by (auto simp: matmat_Inr_iff list_all_length matvec_def)

lemma matmat_length: "matmat M X = Inr Y \<Longrightarrow> length Y = length X"
  by (simp add: matmat_Inr_iff)

text \<open>The property of an initial array that the loop accessors share.\<close>

lemma init_zeros_like:
  "(Inr (zeros_like sol) :: error + ndarray) = Inr A \<Longrightarrow>
     length A = length sol \<and> (\<forall>k<length sol. Inr (zeros_like [sol ! k]) = (Inr [A ! k] :: error + ndarray))"
  by (auto simp: zeros_like_def)

lemma init_zeros:
  "(Inr (zeros n (length sol)) :: error + ndarray) = Inr A \<Longrightarrow>
     length A = length sol \<and> (\<forall>k<length sol. Inr (zeros n (length [sol ! k])) = (Inr [A ! k] :: error + ndarray))"
  by (auto simp: zeros_def)

lemma init_matmat1:
  "matmat M sol = Inr A \<Longrightarrow>
     length A = length sol \<and> (\<forall>k<length sol. matmat M [sol ! k] = Inr [A ! k])"
  using matmat_length [of M sol A] matmat_single [of M sol A] by blast

lemma init_matmat3:
  assumes "ebind (matmat M1 sol) (\<lambda>x. ebind (matmat M2 x) (\<lambda>y. matmat M3 y)) = Inr A"
  shows "length A = length sol \<and>
     (\<forall>k<length sol. ebind (matmat M1 [sol ! k]) (\<lambda>x. ebind (matmat M2 x) (\<lambda>y. matmat M3 y))
        = Inr [A ! k])"
proof -
  from assms obtain x y where x: "matmat M1 sol = Inr x" and y: "matmat M2 x = Inr y"
    and A: "matmat M3 y = Inr A"
    unfolding ebind_eq_Inr by blast
  have l: "length x = length sol" "length y = length sol" "length A = length sol"
    using x y A by (simp_all add: matmat_length)
  show ?thesis
  proof (intro conjI allI impI)
    show "length A = length sol" by (rule l)
  next
    fix k assume k: "k < length sol"
    have "matmat M1 [sol ! k] = Inr [x ! k]" using x k by (rule matmat_single)
    moreover have "matmat M2 [x ! k] = Inr [y ! k]" using y k l by (intro matmat_single) simp_all
    moreover have "matmat M3 [y ! k] = Inr [A ! k]" using A k l by (intro matmat_single) simp_all
    ultimately show "ebind (matmat M1 [sol ! k]) (\<lambda>x. ebind (matmat M2 x) (\<lambda>y. matmat M3 y))
        = Inr [A ! k]"
      by simp
  qed
qed


lemma loop_accessor_form:
  assumes "acc \<in> set loop_accessors"
  obtains init :: "ndarray \<Rightarrow> error + ndarray" and step where
    "\<And>sol srcs. acc self sol srcs = ebind (init sol) (for_cols step 0 srcs)"
    "\<And>sol A. init sol = Inr A \<Longrightarrow>
        length A = length sol \<and> (\<forall>k<length sol. init [sol ! k] = Inr [A ! k])"
proof -
  from assms consider
    "acc = Fields_e_ePrimary"
  | "acc = Fields_e_bPrimary"
  | "acc = Fields_e_bSecondary"
  | "acc = Fields_b_bPrimary"
  | "acc = Fields_b_ePrimary"
  | "acc = Fields_b_eSecondary"
  | "acc = Fields_j_jPrimary"
  | "acc = Fields_j_hPrimary"
  | "acc = Fields_j_hSecondary"
  | "acc = Fields_h_hPrimary"
  | "acc = Fields_h_jPrimary"
  | "acc = Fields_h_jSecondary"
    by (auto simp: loop_accessors_def)
  then show thesis
  proof cases
    case 1
    show thesis
    proof (rule that)
      show "acc self sol srcs = ebind ((\<lambda>sol. Inr (zeros_like sol) :: error + ndarray) sol)
          (for_cols (\<lambda>s c. np_add_val c (ePrimary s)) 0 srcs)" for sol srcs
        by (simp add: 1 Fields_e_ePrimary_def)
      show "(\<lambda>sol. Inr (zeros_like sol) :: error + ndarray) sol = Inr A \<Longrightarrow>
          length A = length sol \<and> (\<forall>k<length sol. (\<lambda>sol. Inr (zeros_like sol) :: error + ndarray) [sol ! k] = Inr [A ! k])" for sol A
        by (rule init_zeros_like)
    qed
  next
    case 2
    show thesis
    proof (rule that)
      show "acc self sol srcs = ebind ((\<lambda>sol. Inr (zeros (nrows (edgeCurl (prob self))) (length sol)) :: error + ndarray) sol)
          (for_cols (\<lambda>s c. np_add_val c (bPrimary s)) 0 srcs)" for sol srcs
        by (simp add: 2 Fields_e_bPrimary_def)
      show "(\<lambda>sol. Inr (zeros (nrows (edgeCurl (prob self))) (length sol)) :: error + ndarray) sol = Inr A \<Longrightarrow>
          length A = length sol \<and> (\<forall>k<length sol. (\<lambda>sol. Inr (zeros (nrows (edgeCurl (prob self))) (length sol)) :: error + ndarray) [sol ! k] = Inr [A ! k])" for sol A
        by (rule init_zeros)
    qed
  next
    case 3
    show thesis
    proof (rule that)
      show "acc self sol srcs = ebind ((\<lambda>sol. matmat (edgeCurl (prob self)) sol) sol)
          (for_cols (\<lambda>s c. ebind (inv_iomega (freq s)) (\<lambda>k.
         np_add_val (imul_vec c (- k)) (scale_val k (fst (src_eval s))))) 0 srcs)" for sol srcs
        by (simp add: 3 Fields_e_bSecondary_def)
      show "(\<lambda>sol. matmat (edgeCurl (prob self)) sol) sol = Inr A \<Longrightarrow>
          length A = length sol \<and> (\<forall>k<length sol. (\<lambda>sol. matmat (edgeCurl (prob self)) sol) [sol ! k] = Inr [A ! k])" for sol A
        by (rule init_matmat1)
    qed
  next
    case 4
    show thesis
    proof (rule that)
      show "acc self sol srcs = ebind ((\<lambda>sol. Inr (zeros_like sol) :: error + ndarray) sol)
          (for_cols (\<lambda>s c. np_add_val c (bPrimary s)) 0 srcs)" for sol srcs
        by (simp add: 4 Fields_b_bPrimary_def)
      show "(\<lambda>sol. Inr (zeros_like sol) :: error + ndarray) sol = Inr A \<Longrightarrow>
          length A = length sol \<and> (\<forall>k<length sol. (\<lambda>sol. Inr (zeros_like sol) :: error + ndarray) [sol ! k] = Inr [A ! k])" for sol A
        by (rule init_zeros_like)
    qed
  next
    case 5
    show thesis
    proof (rule that)
      show "acc self sol srcs = ebind ((\<lambda>sol. Inr (zeros (ncols (edgeCurl (prob self))) (length sol)) :: error + ndarray) sol)
          (for_cols (\<lambda>s c. np_add_val c (ePrimary s)) 0 srcs)" for sol srcs
        by (simp add: 5 Fields_b_ePrimary_def)
      show "(\<lambda>sol. Inr (zeros (ncols (edgeCurl (prob self))) (length sol)) :: error + ndarray) sol = Inr A \<Longrightarrow>
          length A = length sol \<and> (\<forall>k<length sol. (\<lambda>sol. Inr (zeros (ncols (edgeCurl (prob self))) (length sol)) :: error + ndarray) [sol ! k] = Inr [A ! k])" for sol A
        by (rule init_zeros)
    qed
  next
    case 6
    show thesis
    proof (rule that)
      show "acc self sol srcs = ebind ((\<lambda>sol. ebind (matmat (MfMui (prob self)) sol) (\<lambda>x. ebind (matmat (transpose_mat (edgeCurl (prob self))) x) (\<lambda>y. matmat (MeSigmaI (prob self)) y))) sol)
          (for_cols (\<lambda>s c. ebind (matval (neg_mat (MeSigmaI (prob self))) (snd (src_eval s))) (\<lambda>z.
         np_add_val c z)) 0 srcs)" for sol srcs
        by (simp add: 6 Fields_b_eSecondary_def ebind_assoc)
      show "(\<lambda>sol. ebind (matmat (MfMui (prob self)) sol) (\<lambda>x. ebind (matmat (transpose_mat (edgeCurl (prob self))) x) (\<lambda>y. matmat (MeSigmaI (prob self)) y))) sol = Inr A \<Longrightarrow>
          length A = length sol \<and> (\<forall>k<length sol. (\<lambda>sol. ebind (matmat (MfMui (prob self)) sol) (\<lambda>x. ebind (matmat (transpose_mat (edgeCurl (prob self))) x) (\<lambda>y. matmat (MeSigmaI (prob self)) y))) [sol ! k] = Inr [A ! k])" for sol A
        by (rule init_matmat3)
    qed
  next
    case 7
    show thesis
    proof (rule that)
      show "acc self sol srcs = ebind ((\<lambda>sol. Inr (zeros_like sol) :: error + ndarray) sol)
          (for_cols (\<lambda>s c. np_add_val c (jPrimary s)) 0 srcs)" for sol srcs
        by (simp add: 7 Fields_j_jPrimary_def)
      show "(\<lambda>sol. Inr (zeros_like sol) :: error + ndarray) sol = Inr A \<Longrightarrow>
          length A = length sol \<and> (\<forall>k<length sol. (\<lambda>sol. Inr (zeros_like sol) :: error + ndarray) [sol ! k] = Inr [A ! k])" for sol A
        by (rule init_zeros_like)
    qed
  next
    case 8
    show thesis
    proof (rule that)
      show "acc self sol srcs = ebind ((\<lambda>sol. Inr (zeros (ncols (edgeCurl (prob self))) (length sol)) :: error + ndarray) sol)
          (for_cols (\<lambda>s c. np_add_val c (hPrimary s)) 0 srcs)" for sol srcs
        by (simp add: 8 Fields_j_hPrimary_def)
      show "(\<lambda>sol. Inr (zeros (ncols (edgeCurl (prob self))) (length sol)) :: error + ndarray) sol = Inr A \<Longrightarrow>
          length A = length sol \<and> (\<forall>k<length sol. (\<lambda>sol. Inr (zeros (ncols (edgeCurl (prob self))) (length sol)) :: error + ndarray) [sol ! k] = Inr [A ! k])" for sol A
        by (rule init_zeros)
    qed
  next
    case 9
    show thesis
    proof (rule that)
      show "acc self sol srcs = ebind ((\<lambda>sol. ebind (matmat (MfRho (prob self)) sol) (\<lambda>x. ebind (matmat (transpose_mat (edgeCurl (prob self))) x) (\<lambda>y. matmat (MeMuI (prob self)) y))) sol)
          (for_cols (\<lambda>s c. ebind (inv_iomega (freq s)) (\<lambda>k.
         ebind (matval (scale_mat k (MeMuI (prob self))) (fst (src_eval s))) (\<lambda>z.
         np_add_val (imul_vec c (- k)) z))) 0 srcs)" for sol srcs
        by (simp add: 9 Fields_j_hSecondary_def ebind_assoc)
      show "(\<lambda>sol. ebind (matmat (MfRho (prob self)) sol) (\<lambda>x. ebind (matmat (transpose_mat (edgeCurl (prob self))) x) (\<lambda>y. matmat (MeMuI (prob self)) y))) sol = Inr A \<Longrightarrow>
          length A = length sol \<and> (\<forall>k<length sol. (\<lambda>sol. ebind (matmat (MfRho (prob self)) sol) (\<lambda>x. ebind (matmat (transpose_mat (edgeCurl (prob self))) x) (\<lambda>y. matmat (MeMuI (prob self)) y))) [sol ! k] = Inr [A ! k])" for sol A
        by (rule init_matmat3)
    qed
  next
    case 10
    show thesis
    proof (rule that)
      show "acc self sol srcs = ebind ((\<lambda>sol. Inr (zeros_like sol) :: error + ndarray) sol)
          (for_cols (\<lambda>s c. np_add_val c (hPrimary s)) 0 srcs)" for sol srcs
        by (simp add: 10 Fields_h_hPrimary_def)
      show "(\<lambda>sol. Inr (zeros_like sol) :: error + ndarray) sol = Inr A \<Longrightarrow>
          length A = length sol \<and> (\<forall>k<length sol. (\<lambda>sol. Inr (zeros_like sol) :: error + ndarray) [sol ! k] = Inr [A ! k])" for sol A
        by (rule init_zeros_like)
    qed
  next
    case 11
    show thesis
    proof (rule that)
      show "acc self sol srcs = ebind ((\<lambda>sol. Inr (zeros (nrows (edgeCurl (prob self))) (length sol)) :: error + ndarray) sol)
          (for_cols (\<lambda>s c. np_add_val c (jPrimary s)) 0 srcs)" for sol srcs
        by (simp add: 11 Fields_h_jPrimary_def)
      show "(\<lambda>sol. Inr (zeros (nrows (edgeCurl (prob self))) (length sol)) :: error + ndarray) sol = Inr A \<Longrightarrow>
          length A = length sol \<and> (\<forall>k<length sol. (\<lambda>sol. Inr (zeros (nrows (edgeCurl (prob self))) (length sol)) :: error + ndarray) [sol ! k] = Inr [A ! k])" for sol A
        by (rule init_zeros)
    qed
  next
    case 12
    show thesis
    proof (rule that)
      show "acc self sol srcs = ebind ((\<lambda>sol. matmat (edgeCurl (prob self)) sol) sol)
          (for_cols (\<lambda>s c. np_add_val c (neg_val (snd (src_eval s)))) 0 srcs)" for sol srcs
        by (simp add: 12 Fields_h_jSecondary_def)
      show "(\<lambda>sol. matmat (edgeCurl (prob self)) sol) sol = Inr A \<Longrightarrow>
          length A = length sol \<and> (\<forall>k<length sol. (\<lambda>sol. matmat (edgeCurl (prob self)) sol) [sol ! k] = Inr [A ! k])" for sol A
        by (rule init_matmat1)
    qed
  qed
qed


lemma loop_accessor_longer:
  assumes acc: "acc \<in> set loop_accessors" and len: "length sol < length srcs"
  shows "isl (acc self sol srcs)"
proof -
  from acc obtain init :: "ndarray \<Rightarrow> error + ndarray" and step where
    form: "\<And>sol srcs. acc self sol srcs = ebind (init sol) (for_cols step 0 srcs)"
    and ini: "\<And>sol A. init sol = Inr A \<Longrightarrow>
        length A = length sol \<and> (\<forall>k<length sol. init [sol ! k] = Inr [A ! k])"
    by (rule loop_accessor_form [where self = self]) blast
  show ?thesis
  proof (cases "init sol")
    case (Inl e)
    then show ?thesis by (simp add: form)
  next
    case (Inr A)
    with ini have lA: "length A = length sol" by blast
    have "for_cols step 0 srcs A \<noteq> Inr R" for R
      unfolding for_cols_Inr_iff using len lA by auto
    then have "isl (for_cols step 0 srcs A)"
      by (cases "for_cols step 0 srcs A") auto
    then show ?thesis by (simp add: form Inr)
  qed
qed

lemma loop_accessor_shorter:
  assumes acc: "acc \<in> set loop_accessors" and run: "acc self sol srcs = Inr R"
  shows "\<exists>R0. acc self sol [] = Inr R0 \<and> length R = length sol \<and> length R0 = length sol
           \<and> (\<forall>m. length srcs \<le> m \<and> m < length sol \<longrightarrow> R ! m = R0 ! m)"
proof -
  from acc obtain init :: "ndarray \<Rightarrow> error + ndarray" and step where
    form: "\<And>sol srcs. acc self sol srcs = ebind (init sol) (for_cols step 0 srcs)"
    and ini: "\<And>sol A. init sol = Inr A \<Longrightarrow>
        length A = length sol \<and> (\<forall>k<length sol. init [sol ! k] = Inr [A ! k])"
    by (rule loop_accessor_form [where self = self]) blast
  from run obtain A where A: "init sol = Inr A" and fc: "for_cols step 0 srcs A = Inr R"
    unfolding form ebind_eq_Inr by blast
  from ini [OF A] have lA: "length A = length sol" by blast
  from fc have lR: "length R = length A"
    and keep: "\<forall>m<length A. length srcs \<le> m \<longrightarrow> R ! m = A ! m"
    unfolding for_cols_Inr_iff by auto
  have "acc self sol [] = Inr A"
    by (simp add: form A)
  with lA lR keep show ?thesis by auto
qed

lemma native_secondary_identity:
  "acc \<in> set native_secondaries \<Longrightarrow> acc self sol srcs = Inr sol"
  by (auto simp: native_secondaries_def Fields_e_eSecondary_def Fields_b_bSecondary_def
      Fields_j_jSecondary_def Fields_h_hSecondary_def)

lemma cols_add_Inr:
  "cols_add P Q = Inr R \<Longrightarrow>
     length P = length R \<and> length Q = length R \<and> (\<forall>k<length R. vadd (P ! k) (Q ! k) = Inr (R ! k))"
proof (induction P Q arbitrary: R rule: cols_add.induct)
  case 1
  then show ?case by simp
next
  case (2 x xs y ys)
  from 2(2) obtain z zs where z: "vadd x y = Inr z" and zs: "cols_add xs ys = Inr zs"
    and R: "R = z # zs"
    by (auto simp: ebind_eq_Inr)
  from 2(1) [OF zs] have IH: "length xs = length zs" "length ys = length zs"
    "\<forall>k<length zs. vadd (xs ! k) (ys ! k) = Inr (zs ! k)"
    by simp_all
  show ?case
    unfolding R using IH z by (auto simp: nth_Cons split: nat.splits)
qed simp_all

lemma loop_accessor_local:
  assumes acc: "acc \<in> set loop_accessors" and run: "acc self sol srcs = Inr R"
    and k: "k < length srcs"
  shows "k < length sol \<and> length R = length sol \<and> acc self [sol ! k] [srcs ! k] = Inr [R ! k]"
proof -
  from acc obtain init :: "ndarray \<Rightarrow> error + ndarray" and step where
    form: "\<And>sol srcs. acc self sol srcs = ebind (init sol) (for_cols step 0 srcs)"
    and ini: "\<And>sol A. init sol = Inr A \<Longrightarrow>
        length A = length sol \<and> (\<forall>k<length sol. init [sol ! k] = Inr [A ! k])"
    by (rule loop_accessor_form [where self = self]) blast
  from run obtain A where A: "init sol = Inr A" and fc: "for_cols step 0 srcs A = Inr R"
    unfolding form ebind_eq_Inr by blast
  from ini [OF A] have lA: "length A = length sol"
    and single: "\<forall>k<length sol. init [sol ! k] = Inr [A ! k]"
    by blast+
  from for_cols_single [OF fc k] have kA: "k < length A"
    and one: "for_cols step 0 [srcs ! k] [A ! k] = Inr [R ! k]"
    by blast+
  from fc have lR: "length R = length A"
    unfolding for_cols_Inr_iff by blast
  have "acc self [sol ! k] [srcs ! k] = Inr [R ! k]"
    using single kA lA one by (simp add: form)
  then show ?thesis using kA lA lR by simp
qed

lemma getattr_Primary_loop:
  assumes "getattr_Primary c X = Some p"
  shows "p \<in> set loop_accessors"
  using assms unfolding loop_accessors_def
  by (cases rule: getattr_Primary_cases) (simp_all (no_asm_simp))

lemma getattr_Secondary_kind:
  "getattr_Secondary c X = Some q \<Longrightarrow> q \<in> set loop_accessors \<or> q \<in> set native_secondaries"
  by (cases c; cases X) (auto simp: loop_accessors_def native_secondaries_def)

lemma call_total_Some:
  assumes "getattr_Primary (cls self) X = Some p" and "getattr_Secondary (cls self) X = Some q"
  shows "call_total X self sol srcs
      = ebind (p self sol srcs) (\<lambda>P. ebind (q self sol srcs) (\<lambda>Q. cols_add P Q))"
  using assms by (auto simp: call_total_def Fields_total_def Fields_j_j_def)

lemma call_total_Inr_Some:
  assumes "call_total X self sol srcs = Inr R"
  shows "\<exists>p q. getattr_Primary (cls self) X = Some p \<and> getattr_Secondary (cls self) X = Some q"
proof (cases "cls self = Fields_j \<and> X = Qj")
  case True
  then show ?thesis by simp
next
  case False
  with assms have "Fields_total X self sol srcs = Inr R"
    by (auto simp: call_total_def)
  then show ?thesis
    by (auto simp: Fields_total_def split: option.splits)
qed

lemma initial_column_kind:
  "(acc, u) \<in> set initial_column \<Longrightarrow>
     acc \<in> set loop_accessors \<or> acc \<in> set native_secondaries"
  unfolding initial_column_def loop_accessors_def native_secondaries_def
  by (simp (no_asm_use)) blast

lemmas accessor_defs =
  Fields_e_ePrimary_def Fields_e_eSecondary_def Fields_e_bPrimary_def Fields_e_bSecondary_def
  Fields_b_bPrimary_def Fields_b_bSecondary_def Fields_b_ePrimary_def Fields_b_eSecondary_def
  Fields_j_jPrimary_def Fields_j_jSecondary_def Fields_j_hPrimary_def Fields_j_hSecondary_def
  Fields_h_hPrimary_def Fields_h_hSecondary_def Fields_h_jPrimary_def Fields_h_jSecondary_def

lemma initial_column_empty:
  assumes "(acc, u) \<in> set initial_column" and "acc self sol [] = Inr R0" and "m < length sol"
  shows "R0 ! m = u self (sol ! m)"
  using assms unfolding initial_column_def
  by (elim set_ConsD [elim_format] disjE; clarsimp simp: accessor_defs zeros_like_def zeros_def
      ebind_eq_Inr matmat_Inr_iff)

lemma initial_column_untouched:
  assumes t: "(acc, u) \<in> set initial_column" and run: "acc self sol srcs = Inr R"
    and m: "length srcs \<le> m" "m < length sol"
  shows "length R = length sol \<and> R ! m = u self (sol ! m)"
  using initial_column_kind [OF t]
proof
  assume l: "acc \<in> set loop_accessors"
  from loop_accessor_shorter [OF l run] obtain R0 where R0: "acc self sol [] = Inr R0"
    and lR: "length R = length sol"
    and keep: "\<forall>m. length srcs \<le> m \<and> m < length sol \<longrightarrow> R ! m = R0 ! m"
    by blast
  from keep m have "R ! m = R0 ! m" by blast
  with initial_column_empty [OF t R0 m(2)] lR show ?thesis by simp
next
  assume n: "acc \<in> set native_secondaries"
  from native_secondary_identity [OF n, of self sol srcs] run have R: "R = sol" by simp
  from native_secondary_identity [OF n, of self sol "[]"]
  have "acc self sol [] = Inr sol" .
  from initial_column_empty [OF t this m(2)] R show ?thesis by simp
qed

lemma call_total_longer:
  assumes "length sol < length srcs"
  shows "isl (call_total X self sol srcs)"
proof (cases "call_total X self sol srcs")
  case (Inl e)
  then show ?thesis by simp
next
  case (Inr R)
  from call_total_Inr_Some [OF Inr] obtain p q
    where p: "getattr_Primary (cls self) X = Some p"
      and q: "getattr_Secondary (cls self) X = Some q"
    by blast
  from loop_accessor_longer [OF getattr_Primary_loop [OF p] assms, of self]
  obtain e where "p self sol srcs = Inl e"
    by (cases "p self sol srcs") auto
  then have "call_total X self sol srcs = Inl e"
    by (simp add: call_total_Some [OF p q])
  then show ?thesis by simp
qed

lemma call_total_untouched:
  assumes run: "call_total X self sol srcs = Inr R"
    and p: "getattr_Primary (cls self) X = Some p" and q: "getattr_Secondary (cls self) X = Some q"
    and tp: "(p, up) \<in> set initial_column" and tq: "(q, uq) \<in> set initial_column"
    and m: "length srcs \<le> m" "m < length sol"
  shows "length R = length sol \<and> vadd (up self (sol ! m)) (uq self (sol ! m)) = Inr (R ! m)"
proof -
  from run obtain P Q where P: "p self sol srcs = Inr P" and Q: "q self sol srcs = Inr Q"
    and add: "cols_add P Q = Inr R"
    unfolding call_total_Some [OF p q] ebind_eq_Inr by blast
  from initial_column_untouched [OF tp P m] have lP: "length P = length sol"
    and Pm: "P ! m = up self (sol ! m)" by blast+
  from initial_column_untouched [OF tq Q m] have Qm: "Q ! m = uq self (sol ! m)" by blast
  from cols_add_Inr [OF add] have lR: "length P = length R"
    and v: "\<forall>k<length R. vadd (P ! k) (Q ! k) = Inr (R ! k)" by blast+
  from v lR lP m(2) have "vadd (P ! m) (Q ! m) = Inr (R ! m)" by simp
  with Pm Qm lR lP show ?thesis by simp
qed

section \<open>\<^verbatim>\<open>Fields_b._eSecondaryDeriv_u\<close>: forward and adjoint mode\<close>

text \<open>
  Claim C1. In \<^verbatim>\<open>Fields_b\<close>, the adjoint mode of \<^verbatim>\<open>_eSecondaryDeriv_u\<close> is the transpose of
  the forward mode: for operators of fitting shapes, every face-space vector \<open>u\<close> and every
  edge-space vector \<open>w\<close>, both calls return, the forward one
  \<open>x = M\<sigma>\<inverse>\<cdot>(C\<^sup>t\<cdot>(M\<mu>\<inverse>\<cdot>u))\<close> and the adjoint one \<open>y = M\<mu>\<inverse>\<^sup>t\<cdot>(C\<cdot>(M\<sigma>\<inverse>\<^sup>t\<cdot>w))\<close>, and
  \<open>\<langle>w, x\<rangle> = \<langle>u, y\<rangle>\<close>. The pairing is the bilinear one, without conjugation, as \<^verbatim>\<open>.T\<close> is the
  plain transpose.
\<close>

theorem Fields_b_eSecondaryDeriv_u_adjoint:
  assumes C: "wf_mat (edgeCurl (prob self))"
    and Mu: "wf_mat (MfMui (prob self))"
    and Sig: "wf_mat (MeSigmaI (prob self))"
    and u: "length u = ncols (MfMui (prob self))"
    and MuC: "nrows (MfMui (prob self)) = nrows (edgeCurl (prob self))"
    and CSig: "ncols (edgeCurl (prob self)) = ncols (MeSigmaI (prob self))"
    and w: "length w = nrows (MeSigmaI (prob self))"
  shows "\<exists>x y. Fields_b_eSecondaryDeriv_u self s u False = Inr (Vec x)
           \<and> Fields_b_eSecondaryDeriv_u self s w True = Inr (Vec y)
           \<and> x = mv (MeSigmaI (prob self))
                   (mv (transpose_mat (edgeCurl (prob self))) (mv (MfMui (prob self)) u))
           \<and> y = mv (transpose_mat (MfMui (prob self)))
                   (mv (edgeCurl (prob self)) (mv (transpose_mat (MeSigmaI (prob self))) w))
           \<and> dot w x = dot u y"
proof -
  define P where "P = prob self"
  define b where "b = mv (MfMui P) u"
  define a where "a = mv (transpose_mat (edgeCurl P)) b"
  define x where "x = mv (MeSigmaI P) a"
  define w' where "w' = mv (transpose_mat (MeSigmaI P)) w"
  define c where "c = mv (edgeCurl P) w'"
  define y where "y = mv (transpose_mat (MfMui P)) c"
  have lb: "length b = nrows (edgeCurl P)"
    using Mu MuC by (simp add: b_def P_def wf_mat_length_rows)
  have la: "length a = ncols (MeSigmaI P)"
    using CSig by (simp add: a_def P_def)
  have lw': "length w' = ncols (edgeCurl P)"
    using CSig by (simp add: w'_def P_def)
  have lc: "length c = nrows (MfMui P)"
    using C MuC by (simp add: c_def P_def wf_mat_length_rows)
  have fwd: "Fields_b_eSecondaryDeriv_u self s u False = Inr (Vec x)"
    using u lb la
    by (simp add: Fields_b_eSecondaryDeriv_u_def matvec_Inr P_def [symmetric]
        b_def [symmetric] a_def [symmetric] x_def [symmetric])
  have adj: "Fields_b_eSecondaryDeriv_u self s w True = Inr (Vec y)"
    using w lw' lc
    by (simp add: Fields_b_eSecondaryDeriv_u_def matvec_Inr P_def [symmetric]
        w'_def [symmetric] c_def [symmetric] y_def [symmetric])
  have "dot w x = dot w' a"
    unfolding x_def w'_def using Sig la w by (simp add: dot_mv_transpose P_def)
  also have "\<dots> = dot a w'"
    using la lw' CSig by (simp add: dot_commute P_def)
  also have "\<dots> = dot b c"
    unfolding a_def c_def using C lb lw' by (simp add: dot_mv_transpose P_def)
  also have "\<dots> = dot c b"
    using lb lc MuC by (simp add: dot_commute P_def)
  also have "\<dots> = dot y u"
    unfolding y_def b_def using Mu u lc by (simp add: dot_mv_transpose P_def)
  also have "\<dots> = dot u y"
    using u by (simp add: dot_commute y_def P_def)
  finally have "dot w x = dot u y" .
  with fwd adj show ?thesis
    unfolding x_def a_def b_def y_def c_def w'_def P_def by blast
qed

theorem Fields_b_eSecondaryDeriv_u_adjoint_witness:
  "wf_mat toy_curl \<and> wf_mat (diag2 2 5) \<and> wf_mat (diag3 1 2 3)
   \<and> (\<exists>x y. Fields_b_eSecondaryDeriv_u (toy_fields Fields_b) toy_src [1, 2] False = Inr (Vec x)
          \<and> Fields_b_eSecondaryDeriv_u (toy_fields Fields_b) toy_src [1, 0, 1] True = Inr (Vec y)
          \<and> dot [1, 0, 1] x = dot [1, 2] y)"
  using Fields_b_eSecondaryDeriv_u_adjoint
          [of "toy_fields Fields_b" "[1, 2]" "[1, 0, 1]" toy_src]
  by (simp add: toy_fields_def toy_problem_def toy_curl_def diag2_def diag3_def wf_mat_def)

section \<open>The secondary fields, column by column\<close>

text \<open>
  Claim C3. In \<^verbatim>\<open>Fields_e\<close>, for a solution with one column of edge-space length per source,
  sources of nonzero frequency and magnetic source terms that are \<open>Zero\<close> or face-space
  arrays, \<^verbatim>\<open>_bSecondary\<close> returns an array with one column per source, and column \<open>i\<close> is
  \<open>\<minus>(1/(i\<omega>\<^sub>i))\<cdot>(C\<cdot>eSolution)[:,i] + (1/(i\<omega>\<^sub>i))\<cdot>S\<^sub>m\<^sub>,\<^sub>i\<close>. The witness is the spec's scenario: one
  source at \<open>\<omega> = 2\<pi>\<cdot>10\<close> without source terms, the solution \<open>[1, 0, 0]\<close> on the curl
  operator of three edges and two faces, where the result is \<open>\<minus>(1/(i\<omega>))\<cdot>C\<cdot>solution\<close>.
\<close>

theorem Fields_e_bSecondary_column:
  assumes C: "wf_mat (edgeCurl (prob self))"
    and sol: "has_shape (ncols (edgeCurl (prob self))) (length srcList) eSolution"
    and srcs: "list_all (\<lambda>s. freq s \<noteq> 0 \<and> fits (nrows (edgeCurl (prob self))) (fst (src_eval s))) srcList"
    and i: "i < length srcList"
  shows "\<exists>b. Fields_e_bSecondary self eSolution srcList = Inr b \<and> length b = length srcList
           \<and> b ! i = map2 (+)
                 (scale_vec (- (1 / (\<i> * complex_of_real (omega (freq (srcList ! i))))))
                    (mv (edgeCurl (prob self)) (eSolution ! i)))
                 (scale_vec (1 / (\<i> * complex_of_real (omega (freq (srcList ! i)))))
                    (as_vec (nrows (edgeCurl (prob self))) (fst (src_eval (srcList ! i)))))"
proof -
  define Cm where "Cm = edgeCurl (prob self)"
  define k :: "src \<Rightarrow> complex" where "k = (\<lambda>s. 1 / (\<i> * complex_of_real (omega (freq s))))"
  define f where "f = (\<lambda>j. map2 (+) (scale_vec (- k (srcList ! j)) (mv Cm (eSolution ! j)))
      (scale_vec (k (srcList ! j)) (as_vec (nrows Cm) (fst (src_eval (srcList ! j))))))"
  define step :: "src \<Rightarrow> vec \<Rightarrow> error + vec" where "step = (\<lambda>s c. ebind (inv_iomega (freq s)) (\<lambda>k.
         np_add_val (imul_vec c (- k)) (scale_val k (fst (src_eval s)))))"
  have mm: "matmat Cm eSolution = Inr (map (mv Cm) eSolution)"
    using sol unfolding Cm_def by (rule matmat_has_shape)
  have len: "length (map (mv Cm) eSolution) = length srcList"
    using sol by (simp add: has_shape_def)
  have st: "new_col (step (srcList ! j)) (map (mv Cm) eSolution ! j) = Inr (f j)"
    if j: "j < length srcList" for j
  proof -
    have fr: "freq (srcList ! j) \<noteq> 0"
      and ft: "fits (nrows Cm) (fst (src_eval (srcList ! j)))"
      using srcs j by (simp_all add: list_all_length Cm_def)
    have lc: "length (mv Cm (eSolution ! j)) = nrows Cm"
      using C by (simp add: Cm_def wf_mat_length_rows)
    have nth: "map (mv Cm) eSolution ! j = mv Cm (eSolution ! j)"
      using j sol by (simp add: has_shape_def)
    have ft': "fits (length (scale_vec (- k (srcList ! j)) (mv Cm (eSolution ! j))))
        (scale_val (k (srcList ! j)) (fst (src_eval (srcList ! j))))"
      using ft lc by simp
    have "step (srcList ! j) (mv Cm (eSolution ! j)) = Inr (f j)"
      unfolding step_def
      using np_add_val_fits [OF ft'] lc
      by (simp add: inv_iomega_Inr [OF fr] imul_vec_scale_vec k_def f_def
          as_vec_scale_val)
    moreover have "length (f j) = length (mv Cm (eSolution ! j))"
      using ft lc unfolding f_def by (cases "fst (src_eval (srcList ! j))") simp_all
    ultimately show ?thesis
      by (simp add: new_col_def nth setitem_col_same)
  qed
  have "for_cols step 0 srcList (map (mv Cm) eSolution) = Inr (map f [0..<length srcList])"
    using len st by (rule for_cols_full)
  then have "Fields_e_bSecondary self eSolution srcList = Inr (map f [0..<length srcList])"
    by (simp add: Fields_e_bSecondary_def Cm_def [symmetric] mm step_def)
  then show ?thesis
    using i by (simp add: f_def k_def Cm_def)
qed

theorem Fields_e_bSecondary_column_witness:
  "wf_mat toy_curl \<and> has_shape 3 1 [[1, 0, 0]]
   \<and> freq toy_src \<noteq> 0 \<and> src_eval toy_src = (Zero, Zero)
   \<and> (\<exists>b. Fields_e_bSecondary (toy_fields Fields_e) [[1, 0, 0]] [toy_src] = Inr b \<and> length b = 1
         \<and> b ! 0 = scale_vec (- (1 / (\<i> * complex_of_real (2 * pi * 10)))) (mv toy_curl [1, 0, 0]))"
  using Fields_e_bSecondary_column [of "toy_fields Fields_e" "[toy_src]" "[[1, 0, 0]]" 0]
  by (simp add: toy_fields_def toy_problem_def toy_curl_def toy_src_def wf_mat_def has_shape_def
      omega_def scale_vec_def mv_def numeral_2_eq_2)

text \<open>
  Claim C4. In \<^verbatim>\<open>Fields_b\<close>, for a solution with one column of face-space length per source
  and electric source terms that are \<open>Zero\<close> or edge-space arrays, \<^verbatim>\<open>_eSecondary\<close> returns an
  array with one column per source, and column \<open>i\<close> is
  \<open>M\<sigma>\<inverse>\<cdot>(C\<^sup>t\<cdot>(M\<mu>\<inverse>\<cdot>bSolution))[:,i] \<minus> M\<sigma>\<inverse>\<cdot>S\<^sub>e\<^sub>,\<^sub>i\<close>.
\<close>

theorem Fields_b_eSecondary_column:
  assumes Mu: "wf_mat (MfMui (prob self))"
    and sol: "has_shape (ncols (MfMui (prob self))) (length srcList) bSolution"
    and MuC: "nrows (MfMui (prob self)) = nrows (edgeCurl (prob self))"
    and CSig: "ncols (edgeCurl (prob self)) = ncols (MeSigmaI (prob self))"
    and srcs: "list_all (\<lambda>s. fits (ncols (MeSigmaI (prob self))) (snd (src_eval s))) srcList"
    and i: "i < length srcList"
  shows "\<exists>e. Fields_b_eSecondary self bSolution srcList = Inr e \<and> length e = length srcList
           \<and> e ! i = map2 (-)
                 (mv (MeSigmaI (prob self))
                    (mv (transpose_mat (edgeCurl (prob self)))
                       (mv (MfMui (prob self)) (bSolution ! i))))
                 (mv (MeSigmaI (prob self))
                    (as_vec (ncols (MeSigmaI (prob self))) (snd (src_eval (srcList ! i)))))"
proof -
  define P where "P = prob self"
  define g where "g = (\<lambda>c. mv (MeSigmaI P) (mv (transpose_mat (edgeCurl P)) (mv (MfMui P) c)))"
  define f where "f = (\<lambda>j. map2 (-) (g (bSolution ! j))
      (mv (MeSigmaI P) (as_vec (ncols (MeSigmaI P)) (snd (src_eval (srcList ! j))))))"
  define step :: "src \<Rightarrow> vec \<Rightarrow> error + vec" where "step = (\<lambda>s c.
         ebind (matval (neg_mat (MeSigmaI P)) (snd (src_eval s))) (\<lambda>z. np_add_val c z))"
  have m1: "matmat (MfMui P) bSolution = Inr (map (mv (MfMui P)) bSolution)"
    using sol unfolding P_def by (rule matmat_has_shape)
  have s1: "has_shape (ncols (transpose_mat (edgeCurl P))) (length srcList)
      (map (mv (MfMui P)) bSolution)"
    using sol Mu MuC by (simp add: has_shape_def P_def list_all_length wf_mat_length_rows)
  have m2: "matmat (transpose_mat (edgeCurl P)) (map (mv (MfMui P)) bSolution)
      = Inr (map (mv (transpose_mat (edgeCurl P))) (map (mv (MfMui P)) bSolution))"
    using s1 by (rule matmat_has_shape)
  have s2: "has_shape (ncols (MeSigmaI P)) (length srcList)
      (map (mv (transpose_mat (edgeCurl P))) (map (mv (MfMui P)) bSolution))"
    using sol CSig by (simp add: has_shape_def P_def list_all_length)
  have "map (mv (MeSigmaI P)) (map (mv (transpose_mat (edgeCurl P))) (map (mv (MfMui P)) bSolution))
      = map g bSolution"
    by (simp add: g_def)
  then have m3: "matmat (MeSigmaI P) (map (mv (transpose_mat (edgeCurl P))) (map (mv (MfMui P)) bSolution))
      = Inr (map g bSolution)"
    using matmat_has_shape [OF s2] by (simp only:)
  have len: "length (map g bSolution) = length srcList"
    using sol by (simp add: has_shape_def)
  have st: "new_col (step (srcList ! j)) (map g bSolution ! j) = Inr (f j)"
    if j: "j < length srcList" for j
  proof -
    have ft: "fits (ncols (neg_mat (MeSigmaI P))) (snd (src_eval (srcList ! j)))"
      using srcs j by (simp add: list_all_length P_def)
    have lg: "length (g (bSolution ! j)) = length (rows (MeSigmaI P))"
      by (simp add: g_def)
    have nth: "map g bSolution ! j = g (bSolution ! j)"
      using j sol by (simp add: has_shape_def)
    obtain z where z: "matval (neg_mat (MeSigmaI P)) (snd (src_eval (srcList ! j))) = Inr z"
      and fz: "fits (length (rows (MeSigmaI P))) z"
      and az: "as_vec (length (rows (MeSigmaI P))) z
          = mv (neg_mat (MeSigmaI P)) (as_vec (ncols (MeSigmaI P)) (snd (src_eval (srcList ! j))))"
      using matval_fits [OF ft] by auto
    have fz': "fits (length (g (bSolution ! j))) z"
      using fz lg by simp
    have "step (srcList ! j) (g (bSolution ! j))
        = Inr (map2 (+) (g (bSolution ! j)) (as_vec (length (g (bSolution ! j))) z))"
      unfolding step_def using np_add_val_fits [OF fz'] z by simp
    also have "map2 (+) (g (bSolution ! j)) (as_vec (length (g (bSolution ! j))) z) = f j"
      unfolding f_def lg az mv_neg_mat
      by (rule map2_add_uminus) (simp add: lg)
    finally have "step (srcList ! j) (g (bSolution ! j)) = Inr (f j)" .
    moreover have "length (f j) = length (g (bSolution ! j))"
      by (simp add: f_def lg)
    ultimately show ?thesis
      by (simp add: new_col_def nth setitem_col_same)
  qed
  have fc: "for_cols step 0 srcList (map g bSolution) = Inr (map f [0..<length srcList])"
    using len st by (rule for_cols_full)
  have "Fields_b_eSecondary self bSolution srcList = Inr (map f [0..<length srcList])"
    unfolding Fields_b_eSecondary_def P_def [symmetric] m1 ebind_Inr m2 m3
    using fc unfolding step_def .
  then show ?thesis
    using i by (simp add: f_def g_def P_def)
qed

theorem Fields_b_eSecondary_column_witness:
  "wf_mat (diag2 2 5) \<and> has_shape 2 2 [[1, 2], [0, 1]]
   \<and> (\<exists>e. Fields_b_eSecondary (toy_fields Fields_b) [[1, 2], [0, 1]]
              [toy_src, toy_src\<lparr>src_eval := (Zero, Vec [1, 0, 2])\<rparr>] = Inr e
         \<and> length e = 2
         \<and> e ! 1 = map2 (-) (mv (diag3 1 2 3) (mv (transpose_mat toy_curl) (mv (diag2 2 5) [0, 1])))
                      (mv (diag3 1 2 3) [1, 0, 2]))"
  using Fields_b_eSecondary_column [of "toy_fields Fields_b" "[toy_src, toy_src\<lparr>src_eval := (Zero, Vec [1, 0, 2])\<rparr>]"
      "[[1, 2], [0, 1]]" 1]
  by (simp add: toy_fields_def toy_problem_def toy_curl_def toy_src_def diag2_def diag3_def
      wf_mat_def has_shape_def numeral_2_eq_2)

text \<open>
  Claim C5. In \<^verbatim>\<open>Fields_j\<close>, for a solution with one column of face-space length per source,
  sources of nonzero frequency and magnetic source terms that are \<open>Zero\<close> or edge-space
  arrays, \<^verbatim>\<open>_hSecondary\<close> returns an array with one column per source, and column \<open>i\<close> is
  \<open>\<minus>(1/(i\<omega>\<^sub>i))\<cdot>M\<mu>\<inverse>\<cdot>(C\<^sup>t\<cdot>(M\<rho>\<cdot>jSolution))[:,i] + (1/(i\<omega>\<^sub>i))\<cdot>M\<mu>\<inverse>\<cdot>S\<^sub>m\<^sub>,\<^sub>i\<close>.
\<close>

theorem Fields_j_hSecondary_column:
  assumes Rho: "wf_mat (MfRho (prob self))"
    and sol: "has_shape (ncols (MfRho (prob self))) (length srcList) jSolution"
    and RhoC: "nrows (MfRho (prob self)) = nrows (edgeCurl (prob self))"
    and CMu: "ncols (edgeCurl (prob self)) = ncols (MeMuI (prob self))"
    and srcs: "list_all (\<lambda>s. freq s \<noteq> 0 \<and> fits (ncols (MeMuI (prob self))) (fst (src_eval s)))
                 srcList"
    and i: "i < length srcList"
  shows "\<exists>h. Fields_j_hSecondary self jSolution srcList = Inr h \<and> length h = length srcList
           \<and> h ! i = map2 (+)
                 (scale_vec (- (1 / (\<i> * complex_of_real (omega (freq (srcList ! i))))))
                    (mv (MeMuI (prob self))
                       (mv (transpose_mat (edgeCurl (prob self)))
                          (mv (MfRho (prob self)) (jSolution ! i)))))
                 (scale_vec (1 / (\<i> * complex_of_real (omega (freq (srcList ! i)))))
                    (mv (MeMuI (prob self))
                       (as_vec (ncols (MeMuI (prob self))) (fst (src_eval (srcList ! i))))))"
proof -
  define P where "P = prob self"
  define k :: "src \<Rightarrow> complex" where "k = (\<lambda>s. 1 / (\<i> * complex_of_real (omega (freq s))))"
  define g where "g = (\<lambda>c. mv (MeMuI P) (mv (transpose_mat (edgeCurl P)) (mv (MfRho P) c)))"
  define f where "f = (\<lambda>j. map2 (+) (scale_vec (- k (srcList ! j)) (g (jSolution ! j)))
      (scale_vec (k (srcList ! j))
         (mv (MeMuI P) (as_vec (ncols (MeMuI P)) (fst (src_eval (srcList ! j)))))))"
  define step :: "src \<Rightarrow> vec \<Rightarrow> error + vec" where "step = (\<lambda>s c.
         ebind (inv_iomega (freq s)) (\<lambda>k.
         ebind (matval (scale_mat k (MeMuI P)) (fst (src_eval s))) (\<lambda>z.
         np_add_val (imul_vec c (- k)) z)))"
  have m1: "matmat (MfRho P) jSolution = Inr (map (mv (MfRho P)) jSolution)"
    using sol unfolding P_def by (rule matmat_has_shape)
  have s1: "has_shape (ncols (transpose_mat (edgeCurl P))) (length srcList)
      (map (mv (MfRho P)) jSolution)"
    using sol Rho RhoC by (simp add: has_shape_def P_def list_all_length wf_mat_length_rows)
  have m2: "matmat (transpose_mat (edgeCurl P)) (map (mv (MfRho P)) jSolution)
      = Inr (map (mv (transpose_mat (edgeCurl P))) (map (mv (MfRho P)) jSolution))"
    using s1 by (rule matmat_has_shape)
  have s2: "has_shape (ncols (MeMuI P)) (length srcList)
      (map (mv (transpose_mat (edgeCurl P))) (map (mv (MfRho P)) jSolution))"
    using sol CMu by (simp add: has_shape_def P_def list_all_length)
  have "map (mv (MeMuI P)) (map (mv (transpose_mat (edgeCurl P))) (map (mv (MfRho P)) jSolution))
      = map g jSolution"
    by (simp add: g_def)
  then have m3: "matmat (MeMuI P) (map (mv (transpose_mat (edgeCurl P))) (map (mv (MfRho P)) jSolution))
      = Inr (map g jSolution)"
    using matmat_has_shape [OF s2] by (simp only:)
  have len: "length (map g jSolution) = length srcList"
    using sol by (simp add: has_shape_def)
  have st: "new_col (step (srcList ! j)) (map g jSolution ! j) = Inr (f j)"
    if j: "j < length srcList" for j
  proof -
    have fr: "freq (srcList ! j) \<noteq> 0"
      and ft: "fits (ncols (scale_mat (k (srcList ! j)) (MeMuI P))) (fst (src_eval (srcList ! j)))"
      using srcs j by (simp_all add: list_all_length P_def)
    have lg: "length (g (jSolution ! j)) = length (rows (MeMuI P))"
      by (simp add: g_def)
    have nth: "map g jSolution ! j = g (jSolution ! j)"
      using j sol by (simp add: has_shape_def)
    obtain z where z: "matval (scale_mat (k (srcList ! j)) (MeMuI P)) (fst (src_eval (srcList ! j))) = Inr z"
      and fz: "fits (length (rows (MeMuI P))) z"
      and az: "as_vec (length (rows (MeMuI P))) z
          = mv (scale_mat (k (srcList ! j)) (MeMuI P))
               (as_vec (ncols (MeMuI P)) (fst (src_eval (srcList ! j))))"
      using matval_fits [OF ft] by auto
    have fz': "fits (length (scale_vec (- k (srcList ! j)) (g (jSolution ! j)))) z"
      using fz lg by simp
    have "step (srcList ! j) (g (jSolution ! j))
        = Inr (map2 (+) (scale_vec (- k (srcList ! j)) (g (jSolution ! j)))
                 (as_vec (length (scale_vec (- k (srcList ! j)) (g (jSolution ! j)))) z))"
      unfolding step_def using np_add_val_fits [OF fz'] z
      by (simp add: inv_iomega_Inr [OF fr] imul_vec_scale_vec k_def)
    also have "map2 (+) (scale_vec (- k (srcList ! j)) (g (jSolution ! j)))
                 (as_vec (length (scale_vec (- k (srcList ! j)) (g (jSolution ! j)))) z) = f j"
      by (simp add: f_def lg az mv_scale_mat)
    finally have "step (srcList ! j) (g (jSolution ! j)) = Inr (f j)" .
    moreover have "length (f j) = length (g (jSolution ! j))"
      by (simp add: f_def lg)
    ultimately show ?thesis
      by (simp add: new_col_def nth setitem_col_same)
  qed
  have fc: "for_cols step 0 srcList (map g jSolution) = Inr (map f [0..<length srcList])"
    using len st by (rule for_cols_full)
  have "Fields_j_hSecondary self jSolution srcList = Inr (map f [0..<length srcList])"
    unfolding Fields_j_hSecondary_def P_def [symmetric] m1 ebind_Inr m2 m3
    using fc unfolding step_def .
  then show ?thesis
    using i by (simp add: f_def g_def P_def k_def)
qed

theorem Fields_j_hSecondary_column_witness:
  "wf_mat (diag2 2 5) \<and> has_shape 2 2 [[1, 2], [0, 1]] \<and> freq toy_src \<noteq> 0
   \<and> (\<exists>h. Fields_j_hSecondary (toy_fields Fields_j) [[1, 2], [0, 1]]
              [toy_src, toy_src\<lparr>src_eval := (Vec [1, 0, 2], Zero)\<rparr>] = Inr h
         \<and> length h = 2
         \<and> h ! 1 = map2 (+)
               (scale_vec (- (1 / (\<i> * complex_of_real (omega 10))))
                  (mv (diag3 1 2 3) (mv (transpose_mat toy_curl) (mv (diag2 2 5) [0, 1]))))
               (scale_vec (1 / (\<i> * complex_of_real (omega 10))) (mv (diag3 1 2 3) [1, 0, 2])))"
  using Fields_j_hSecondary_column [of "toy_fields Fields_j" "[toy_src, toy_src\<lparr>src_eval := (Vec [1, 0, 2], Zero)\<rparr>]"
      "[[1, 2], [0, 1]]" 1]
  by (simp add: toy_fields_def toy_problem_def toy_curl_def toy_src_def diag2_def diag3_def
      wf_mat_def has_shape_def numeral_2_eq_2)

section \<open>Model derivatives of the native quantities\<close>

text \<open>
  Claim C9. For every source, every vector and both values of the adjoint flag,
  \<^verbatim>\<open>Fields_e._eDeriv_m\<close>, \<^verbatim>\<open>Fields_b._bDeriv_m\<close>, \<^verbatim>\<open>Fields_j._jDeriv_m\<close> and
  \<^verbatim>\<open>Fields_h._hDeriv_m\<close> return \<open>Zero\<close>: the symbol, which is no array of zeros, and which is
  the identity of addition on both sides.
\<close>

theorem native_Deriv_m_Zero:
  "Fields_e_eDeriv_m self s v adjoint = Inr Zero
   \<and> Fields_b_bDeriv_m self s v adjoint = Inr Zero
   \<and> Fields_j_jDeriv_m self s v adjoint = Inr Zero
   \<and> Fields_h_hDeriv_m self s v adjoint = Inr Zero
   \<and> Zero \<noteq> Vec (replicate n 0)
   \<and> val_add Zero x = Inr x \<and> val_add x Zero = Inr x"
  by (cases x)
     (simp_all add: Fields_e_eDeriv_m_def Fields_b_bDeriv_m_def Fields_j_jDeriv_m_def
        Fields_h_hDeriv_m_def)

section \<open>Quantities a class does not support\<close>

text \<open>
  Claim C6. For every class and every quantity \<open>X\<close>: when the class defines no primary or no
  secondary accessor for \<open>X\<close>, the call \<^verbatim>\<open>self._X(solution, srcList)\<close> raises
  NotImplementedError, and when it defines no \<^verbatim>\<open>_XDeriv_u\<close> or no \<^verbatim>\<open>_XDeriv_m\<close>, so does
  \<^verbatim>\<open>self._XDeriv(src, du_dm, v, adjoint)\<close>; no value is returned. The message names the
  quantity and the class through its known field, and different quantities and different
  classes have different names.
\<close>

theorem unsupported_quantity_NotImplementedError:
  "(getattr_Primary (cls self) X = None \<or> getattr_Secondary (cls self) X = None \<longrightarrow>
      call_total X self solution srcList =
        Inl (NotImplementedError
          (''Getting '' @ qname X @ '' from '' @ knownFields_key (cls self)
             @ '' is not implemented'')))
   \<and> (getattr_Deriv_u (cls self) X = None \<or> getattr_Deriv_m (cls self) X = None \<longrightarrow>
      Fields_Deriv X self s du_dm v adjoint =
        Inl (NotImplementedError
          (''Getting '' @ qname X @ ''Derivs from '' @ knownFields_key (cls self)
             @ '' is not implemented'')))
   \<and> inj knownFields_key \<and> inj qname"
proof (intro conjI impI)
  assume a: "getattr_Primary (cls self) X = None \<or> getattr_Secondary (cls self) X = None"
  then have "\<not> (cls self = Fields_j \<and> X = Qj)"
    by (rule getattr_None_not_override)
  then have "call_total X self solution srcList = Fields_total X self solution srcList"
    by (auto simp: call_total_def)
  with a show "call_total X self solution srcList =
        Inl (NotImplementedError
          (''Getting '' @ qname X @ '' from '' @ knownFields_key (cls self)
             @ '' is not implemented''))"
    by (auto simp: Fields_total_def split: option.splits)
next
  assume "getattr_Deriv_u (cls self) X = None \<or> getattr_Deriv_m (cls self) X = None"
  then show "Fields_Deriv X self s du_dm v adjoint =
        Inl (NotImplementedError
          (''Getting '' @ qname X @ ''Derivs from '' @ knownFields_key (cls self)
             @ '' is not implemented''))"
    by (auto simp: Fields_Deriv_def split: option.splits)
next
  show "inj knownFields_key"
  proof (rule injI)
    fix a b assume "knownFields_key a = knownFields_key b"
    then show "a = b" by (cases a; cases b) simp_all
  qed
next
  show "inj qname"
  proof (rule injI)
    fix a b assume "qname a = qname b"
    then show "a = b" by (cases a; cases b) simp_all
  qed
qed

theorem unsupported_quantity_NotImplementedError_witness:
  "getattr_Primary (cls (toy_fields Fields_e)) Qh = None
   \<and> getattr_Deriv_u (cls (toy_fields Fields_e)) Qh = None
   \<and> call_total Qh (toy_fields Fields_e) [[1, 0, 0]] [toy_src]
       = Inl (NotImplementedError ''Getting h from eSolution is not implemented'')
   \<and> Fields_Deriv Qh (toy_fields Fields_e) toy_src [1, 0, 0] [1, 0, 0] False
       = Inl (NotImplementedError ''Getting hDerivs from eSolution is not implemented'')"
  using unsupported_quantity_NotImplementedError
    [of "toy_fields Fields_e" Qh "[[1, 0, 0]]" "[toy_src]" toy_src "[1, 0, 0]" "[1, 0, 0]" False]
  by (simp add: toy_fields_def)

section \<open>The primary fields do not read the solution\<close>

text \<open>
  Claim C10. Every primary accessor of every class depends on the solution only through
  its shape: for two solutions of the same shape (the same column lengths, column by
  column) and one source list, the two calls give the same result, error or array. And
  column \<open>i\<close> is the primary field of source \<open>i\<close>: when the source list is not longer than
  the solution has columns and the primary field of every source is \<open>Zero\<close> or an array
  with as many entries as the primary array has rows, the call returns an array with the
  columns of the solution whose column \<open>i\<close> is the primary field of source \<open>i\<close>, whatever the
  values of the solution.
\<close>

theorem primary_noninterference:
  "(getattr_Primary c X = Some p \<and> map length sol = map length sol' \<longrightarrow>
      p self sol srcList = p self sol' srcList)
   \<and> (getattr_Primary c X = Some p \<and> length srcList \<le> length sol
        \<and> (\<forall>i<length srcList.
              fits (primary_rows c X self (sol ! i)) (src_Primary X (srcList ! i))) \<longrightarrow>
      (\<exists>R. p self sol srcList = Inr R \<and> length R = length sol
         \<and> (\<forall>i<length srcList.
               R ! i = as_vec (primary_rows c X self (sol ! i)) (src_Primary X (srcList ! i)))))"
  using primary_shape_only [of c X p sol sol' self srcList]
    primary_returns [of c X p srcList sol self]
  by blast

theorem primary_noninterference_witness:
  "getattr_Primary Fields_b Qe = Some Fields_b_ePrimary
   \<and> map length [[1, 2 :: complex]] = map length [[3, 4 :: complex]]
   \<and> length [toy_src\<lparr>ePrimary := Vec [1, 2, 3]\<rparr>] \<le> length [[1, 2 :: complex]]
   \<and> fits (primary_rows Fields_b Qe (toy_fields Fields_b) [1, 2])
        (src_Primary Qe (toy_src\<lparr>ePrimary := Vec [1, 2, 3]\<rparr>))
   \<and> Fields_b_ePrimary (toy_fields Fields_b) [[1, 2]] [toy_src\<lparr>ePrimary := Vec [1, 2, 3]\<rparr>]
       = Fields_b_ePrimary (toy_fields Fields_b) [[3, 4]] [toy_src\<lparr>ePrimary := Vec [1, 2, 3]\<rparr>]
   \<and> (\<exists>R. Fields_b_ePrimary (toy_fields Fields_b) [[1, 2]] [toy_src\<lparr>ePrimary := Vec [1, 2, 3]\<rparr>]
            = Inr R
         \<and> length R = 1 \<and> R ! 0 = [1, 2, 3])"
proof -
  define s where "s = toy_src\<lparr>ePrimary := Vec [1, 2, 3]\<rparr>"
  have g: "getattr_Primary Fields_b Qe = Some Fields_b_ePrimary"
    by simp
  have m: "map length [[1, 2 :: complex]] = map length [[3, 4 :: complex]]"
    by simp
  have l: "length [s] \<le> length [[1, 2 :: complex]]"
    by simp
  have f: "fits (primary_rows Fields_b Qe (toy_fields Fields_b) [1, 2]) (src_Primary Qe s)"
    by (simp add: s_def toy_fields_def toy_problem_def toy_curl_def toy_src_def)
  have f': "\<forall>i<length [s].
      fits (primary_rows Fields_b Qe (toy_fields Fields_b) ([[1, 2]] ! i)) (src_Primary Qe ([s] ! i))"
    using f by simp
  note t = primary_noninterference
      [of Fields_b Qe Fields_b_ePrimary "[[1, 2]]" "[[3, 4]]" "toy_fields Fields_b" "[s]"]
  from t g m have e: "Fields_b_ePrimary (toy_fields Fields_b) [[1, 2]] [s]
      = Fields_b_ePrimary (toy_fields Fields_b) [[3, 4]] [s]"
    by blast
  from t g l f' obtain R where R: "Fields_b_ePrimary (toy_fields Fields_b) [[1, 2]] [s] = Inr R"
    and lR: "length R = length [[1, 2 :: complex]]"
    and c: "\<forall>i<length [s]. R ! i
        = as_vec (primary_rows Fields_b Qe (toy_fields Fields_b) ([[1, 2]] ! i))
            (src_Primary Qe ([s] ! i))"
    by blast
  from c have "R ! 0 = [1, 2, 3]"
    by (simp add: s_def toy_src_def)
  with R lR have x: "\<exists>R. Fields_b_ePrimary (toy_fields Fields_b) [[1, 2]] [s] = Inr R
      \<and> length R = 1 \<and> R ! 0 = [1, 2, 3]"
    by simp
  show ?thesis
    using g m l f e x unfolding s_def by (intro conjI) simp_all
qed

section \<open>\<^verbatim>\<open>Fields_b._eSecondaryDeriv_m\<close>: forward and adjoint mode\<close>

text \<open>
  Claim C2 asks that the adjoint mode of \<^verbatim>\<open>_eSecondaryDeriv_m\<close> be the transpose of its
  forward mode. In adjoint mode the code subtracts \<open>M\<sigma>\<inverse>\<cdot>(dS\<^sub>e\<^sup>t\<cdot>y)\<close>, where the transpose of
  the forward term \<open>M\<sigma>\<inverse>\<cdot>(dS\<^sub>e\<cdot>v)\<close> is \<open>dS\<^sub>e\<^sup>t\<cdot>(M\<sigma>\<inverse>\<^sup>t\<cdot>y)\<close> (the sibling
  \<^verbatim>\<open>Fields_j._hSecondaryDeriv_m\<close> applies its operators to \<open>v\<close> first). On the toy mesh, with
  the stored solution \<open>[1, 2]\<close> and the source \<open>toy_src_dSe\<close>, whose derivative pair is a
  transposed pair (\<open>toy_src_dSe_transposes\<close>), the two modes return, and with
  \<open>v = [0, 1, 0]\<close> and \<open>y = [1, 0, 0]\<close> the pairing \<open>\<langle>y, forward v\<rangle>\<close> is \<open>\<minus>1\<close> while
  \<open>\<langle>v, adjoint y\<rangle>\<close> is \<open>\<minus>2\<close>.
\<close>

theorem Fields_b_eSecondaryDeriv_m_adjoint_mismatch:
  "Fields_b_eSecondaryDeriv_m ((toy_fields Fields_b)\<lparr>stored := (\<lambda>s. [1, 2])\<rparr>) toy_src_dSe
       [0, 1, 0] False = Inr (Vec [- 1, 8, 0])
   \<and> Fields_b_eSecondaryDeriv_m ((toy_fields Fields_b)\<lparr>stored := (\<lambda>s. [1, 2])\<rparr>) toy_src_dSe
       [1, 0, 0] True = Inr (Vec [2, - 2, 0])
   \<and> dot [1, 0, 0] [- 1, 8, 0] \<noteq> dot [0, 1, 0] [2, - 2, 0]"
  by (simp add: Fields_b_eSecondaryDeriv_m_def toy_fields_def toy_problem_def toy_curl_def
      toy_src_dSe_def toy_src_def toy_dSe_def diag2_def diag3_def matvec_def mv_def
      transpose_mat_def vsub_def dot_def Let_def upt_0_3 upt_0_2)

section \<open>A source list and a solution of different lengths\<close>

text \<open>
  Claim C7 asks that every accessor raise an error when the number of columns of the
  solution differs from the length of the source list. The code checks neither length.
  With a solution of two columns and one source, \<^verbatim>\<open>Fields_e._bSecondary\<close> returns: its
  first column is scaled by \<open>\<minus>1/(i\<omega>)\<close>, its second is \<open>C\<cdot>eSolution[:,1]\<close> as it is; and
  \<^verbatim>\<open>Fields_e._ePrimary\<close> returns two columns of zeros.
\<close>

theorem shorter_source_list_counterexample:
  "length [toy_src] \<noteq> length [[1, 0, 0], [0, 1, 0 :: complex]]
   \<and> Fields_e_bSecondary (toy_fields Fields_e) [[1, 0, 0], [0, 1, 0]] [toy_src]
       = Inr [[- (1 / (\<i> * complex_of_real (omega 10))), 0], [- 1, 1]]
   \<and> mv toy_curl [0, 1, 0] = [- 1, 1]
   \<and> Fields_e_ePrimary (toy_fields Fields_e) [[1, 0, 0], [0, 1, 0]] [toy_src]
       = Inr [[0, 0, 0], [0, 0, 0]]"
  by (simp add: Fields_e_bSecondary_def Fields_e_ePrimary_def toy_fields_def toy_problem_def
      toy_curl_def toy_src_def matvec_def mv_def inv_iomega_def omega_def imul_vec_def
      setitem_col_def zeros_like_def)

text \<open>
  Claim C7 as amended. A source list longer than the solution has columns makes every
  accessor that loops over the sources raise an error, and with it every total-field
  accessor. A source list that is not longer is not checked: when an accessor returns, its
  result has the columns of the solution, and a column beyond the source list is what
  \<open>initial_column\<close> says of the accessor: zeros in a primary field, the product of the
  operators with the column of the solution, unscaled and without source term, in a
  secondary field that is computed, the column of the solution in one that is the
  solution; in a total field it is the sum of these two. The secondary accessors of the
  quantity a class solves for return the solution, whatever the source list.
\<close>

theorem source_list_length_mismatch:
  "(acc \<in> set loop_accessors \<and> length sol < length srcs \<longrightarrow> isl (acc self sol srcs))
   \<and> (length sol < length srcs \<longrightarrow> isl (call_total X self sol srcs))
   \<and> ((acc, u) \<in> set initial_column \<and> acc self sol srcs = Inr R
        \<and> length srcs \<le> m \<and> m < length sol \<longrightarrow>
      length R = length sol \<and> R ! m = u self (sol ! m))
   \<and> (call_total X self sol srcs = Inr T
        \<and> getattr_Primary (cls self) X = Some p \<and> getattr_Secondary (cls self) X = Some q
        \<and> (p, up) \<in> set initial_column \<and> (q, uq) \<in> set initial_column
        \<and> length srcs \<le> m \<and> m < length sol \<longrightarrow>
      length T = length sol \<and> vadd (up self (sol ! m)) (uq self (sol ! m)) = Inr (T ! m))
   \<and> (acc \<in> set native_secondaries \<longrightarrow> acc self sol srcs = Inr sol)"
  using loop_accessor_longer [of acc sol srcs self]
    call_total_longer [of sol srcs X self]
    initial_column_untouched [of acc u self sol srcs R m]
    call_total_untouched [of X self sol srcs T p q up uq m]
    native_secondary_identity [of acc self sol srcs]
  by blast

theorem source_list_length_mismatch_witness:
  "Fields_e_bSecondary \<in> set loop_accessors
   \<and> length [[1, 0, 0 :: complex]] < length [toy_src, toy_src]
   \<and> isl (Fields_e_bSecondary (toy_fields Fields_e) [[1, 0, 0]] [toy_src, toy_src])
   \<and> isl (call_total Qb (toy_fields Fields_e) [[1, 0, 0]] [toy_src, toy_src])
   \<and> (Fields_e_bSecondary, \<lambda>self c. mv (edgeCurl (prob self)) c) \<in> set initial_column
   \<and> (Fields_e_bPrimary, \<lambda>self c. replicate (nrows (edgeCurl (prob self))) 0)
        \<in> set initial_column
   \<and> Fields_e_bSecondary (toy_fields Fields_e) [[1, 0, 0], [0, 1, 0]] [toy_src]
       = Inr [[- (1 / (\<i> * complex_of_real (omega 10))), 0], [- 1, 1]]
   \<and> [[- (1 / (\<i> * complex_of_real (omega 10))), 0], [- 1, 1]] ! 1 = mv toy_curl [0, 1, 0]
   \<and> call_total Qb (toy_fields Fields_e) [[1, 0, 0], [0, 1, 0]] [toy_src]
       = Inr [[- (1 / (\<i> * complex_of_real (omega 10))), 0], [- 1, 1]]
   \<and> vadd (replicate 2 0) (mv toy_curl [0, 1, 0])
       = Inr ([[- (1 / (\<i> * complex_of_real (omega 10))), 0], [- 1, 1]] ! 1)
   \<and> Fields_e_eSecondary \<in> set native_secondaries
   \<and> Fields_e_eSecondary (toy_fields Fields_e) [[1, 0, 0]] [] = Inr [[1, 0, 0]]"
proof -
  define R :: ndarray where "R = [[- (1 / (\<i> * complex_of_real (omega 10))), 0], [- 1, 1]]"
  define tf where "tf = toy_fields Fields_e"
  define ub :: "fields \<Rightarrow> vec \<Rightarrow> vec" where "ub = (\<lambda>self c. mv (edgeCurl (prob self)) c)"
  define up :: "fields \<Rightarrow> vec \<Rightarrow> vec"
    where "up = (\<lambda>self c. replicate (nrows (edgeCurl (prob self))) 0)"
  have a: "Fields_e_bSecondary \<in> set loop_accessors"
    by (simp add: loop_accessors_def)
  have n: "Fields_e_eSecondary \<in> set native_secondaries"
    by (simp add: native_secondaries_def)
  have tb: "(Fields_e_bSecondary, ub) \<in> set initial_column"
    by (simp add: initial_column_def ub_def)
  have tp: "(Fields_e_bPrimary, up) \<in> set initial_column"
    by (simp add: initial_column_def up_def)
  have C: "edgeCurl (prob tf) = toy_curl"
    by (simp add: tf_def toy_fields_def toy_problem_def)
  have run: "Fields_e_bSecondary tf [[1, 0, 0], [0, 1, 0]] [toy_src] = Inr R"
    by (simp add: R_def tf_def Fields_e_bSecondary_def toy_fields_def toy_problem_def
        toy_curl_def toy_src_def matvec_def mv_def inv_iomega_def omega_def imul_vec_def
        setitem_col_def)
  have prim: "Fields_e_bPrimary tf [[1, 0, 0], [0, 1, 0]] [toy_src] = Inr [[0, 0], [0, 0]]"
    by (simp add: tf_def Fields_e_bPrimary_def toy_fields_def toy_problem_def
        toy_curl_def toy_src_def setitem_col_def zeros_def numeral_2_eq_2)
  have g: "getattr_Primary (cls tf) Qb = Some Fields_e_bPrimary"
    "getattr_Secondary (cls tf) Qb = Some Fields_e_bSecondary"
    by (simp_all add: tf_def toy_fields_def)
  have tot: "call_total Qb tf [[1, 0, 0], [0, 1, 0]] [toy_src] = Inr R"
    using call_total_Some [OF g, of "[[1, 0, 0], [0, 1, 0]]" "[toy_src]"] run prim
    by (simp add: R_def vadd_def)
  have 1: "isl (Fields_e_bSecondary tf [[1, 0, 0]] [toy_src, toy_src])"
    using source_list_length_mismatch [of Fields_e_bSecondary "[[1, 0, 0]]" "[toy_src, toy_src]" tf] a
    by simp
  have 2: "isl (call_total Qb tf [[1, 0, 0]] [toy_src, toy_src])"
    using source_list_length_mismatch [of Fields_e_bSecondary "[[1, 0, 0]]" "[toy_src, toy_src]" tf Qb]
    by simp
  have 3: "R ! 1 = ub tf ([[1, 0, 0], [0, 1, 0]] ! 1)"
    using source_list_length_mismatch [of Fields_e_bSecondary "[[1, 0, 0], [0, 1, 0]]" "[toy_src]" tf Qb ub R 1]
      tb run
    by simp
  have 4: "vadd (up tf ([[1, 0, 0], [0, 1, 0]] ! 1)) (ub tf ([[1, 0, 0], [0, 1, 0]] ! 1))
      = Inr (R ! 1)"
    using source_list_length_mismatch [of Fields_e_bSecondary "[[1, 0, 0], [0, 1, 0]]" "[toy_src]" tf Qb ub R 1
        R Fields_e_bPrimary Fields_e_bSecondary up ub] tot g tp tb
    by simp
  have 5: "Fields_e_eSecondary tf [[1, 0, 0]] [] = Inr [[1, 0, 0]]"
    using source_list_length_mismatch [of Fields_e_eSecondary "[[1, 0, 0]]" "[]" tf] n
    by blast
  have c3: "R ! 1 = mv toy_curl [0, 1, 0]"
    using 3 by (simp add: ub_def C)
  have c4: "vadd (replicate 2 0) (mv toy_curl [0, 1, 0]) = Inr (R ! 1)"
    using 4 by (simp add: ub_def up_def C toy_curl_def)
  show ?thesis
    using a n tb tp run tot 1 2 c3 c4 5 unfolding R_def tf_def ub_def up_def
    by (intro conjI) simp_all
qed

section \<open>The order of the columns\<close>

text \<open>
  Claim C8. For every class and every quantity: when the total field of a solution and a
  source list is returned, then for every position \<open>k\<close> of the source list the total field
  of column \<open>k\<close> of the solution and source \<open>k\<close> alone is returned too, and its only column
  is column \<open>k\<close> of the former.
\<close>

theorem call_total_column_order:
  assumes run: "call_total X self sol srcList = Inr R" and k: "k < length srcList"
  shows "call_total X self [sol ! k] [srcList ! k] = Inr [R ! k]"
proof -
  from call_total_Inr_Some [OF run] obtain p q
    where p: "getattr_Primary (cls self) X = Some p"
      and q: "getattr_Secondary (cls self) X = Some q"
    by blast
  from run obtain P Q where P: "p self sol srcList = Inr P" and Q: "q self sol srcList = Inr Q"
    and add: "cols_add P Q = Inr R"
    unfolding call_total_Some [OF p q] ebind_eq_Inr by blast
  from loop_accessor_local [OF getattr_Primary_loop [OF p] P k]
  have ks: "k < length sol" and lP: "length P = length sol"
    and P1: "p self [sol ! k] [srcList ! k] = Inr [P ! k]"
    by blast+
  have Q1: "q self [sol ! k] [srcList ! k] = Inr [Q ! k]"
    using getattr_Secondary_kind [OF q]
  proof
    assume "q \<in> set loop_accessors"
    from loop_accessor_local [OF this Q k] show ?thesis by blast
  next
    assume n: "q \<in> set native_secondaries"
    then have "Q = sol" using Q native_secondary_identity [OF n, of self sol srcList] by simp
    then show ?thesis using native_secondary_identity [OF n, of self "[sol ! k]" "[srcList ! k]"]
      by simp
  qed
  from cols_add_Inr [OF add] lP ks have "vadd (P ! k) (Q ! k) = Inr (R ! k)"
    by auto
  then have "cols_add [P ! k] [Q ! k] = Inr [R ! k]"
    by simp
  then show ?thesis
    by (simp add: call_total_Some [OF p q] P1 Q1)
qed

theorem call_total_column_order_witness:
  "call_total Qe (toy_fields Fields_b) [[1, 2], [0, 1]]
       [toy_src, toy_src\<lparr>ePrimary := Vec [1, 1, 1], src_eval := (Zero, Vec [1, 0, 2])\<rparr>]
     = Inr [[2, 16, - 30], [0, 11, - 20]]
   \<and> (1 :: nat) < length [toy_src, toy_src\<lparr>ePrimary := Vec [1, 1, 1], src_eval := (Zero, Vec [1, 0, 2])\<rparr>]
   \<and> call_total Qe (toy_fields Fields_b) [[0, 1]]
       [toy_src\<lparr>ePrimary := Vec [1, 1, 1], src_eval := (Zero, Vec [1, 0, 2])\<rparr>]
     = Inr [[0, 11, - 20]]"
proof -
  have run: "call_total Qe (toy_fields Fields_b) [[1, 2], [0, 1]]
       [toy_src, toy_src\<lparr>ePrimary := Vec [1, 1, 1], src_eval := (Zero, Vec [1, 0, 2])\<rparr>]
     = Inr [[2, 16, - 30], [0, 11, - 20]]"
    by (simp add: call_total_def Fields_total_def Fields_b_ePrimary_def Fields_b_eSecondary_def
        toy_fields_def toy_problem_def toy_curl_def toy_src_def diag2_def diag3_def
        matvec_def mv_def transpose_mat_def neg_mat_def vadd_def setitem_col_def zeros_def
        upt_0_3 numeral_2_eq_2 numeral_3_eq_3)
  show ?thesis
    using call_total_column_order [OF run, of 1] run by simp
qed

end
